theory Spec2Isabelle
  imports Main "HOL-Library.Word"
begin

section \<open>Errors of package cloudriftapi\<close>

text \<open>
  Go errors are values.  \<open>ErrNotFound\<close> is the package's sentinel, \<open>ErrorNew\<close> an error made by
  \<open>errors.New\<close> (or a \<open>fmt.Errorf\<close> without \<open>%w\<close>, or an error of the standard library),
  and \<open>ErrorWrap pre e post\<close> a \<open>fmt.Errorf\<close> whose format wraps \<open>e\<close> with \<open>%w\<close> between
  the texts \<open>pre\<close> and \<open>post\<close>.
\<close>

datatype error = ErrNotFound | ErrorNew string | ErrorWrap string error string

fun Error :: "error \<Rightarrow> string" where
  "Error ErrNotFound = ''resource not found''"
| "Error (ErrorNew msg) = msg"
| "Error (ErrorWrap pre e post) = pre @ Error e @ post"

text \<open>\<open>errors.Is(err, ErrNotFound)\<close>: the sentinel itself, or anything that wraps it.\<close>

fun errors_Is_ErrNotFound :: "error \<Rightarrow> bool" where
  "errors_Is_ErrNotFound ErrNotFound = True"
| "errors_Is_ErrNotFound (ErrorNew msg) = False"
| "errors_Is_ErrNotFound (ErrorWrap pre e post) = errors_Is_ErrNotFound e"

text \<open>The verb \<open>%v\<close> of \<open>fmt\<close> on an \<open>int\<close>: decimal digits, with a sign when negative.\<close>

definition digit :: "nat \<Rightarrow> char" where
  "digit n = char_of (48 + n)"

fun format_nat :: "nat \<Rightarrow> string" where
  "format_nat n = (if n < 10 then [digit n] else format_nat (n div 10) @ [digit (n mod 10)])"

declare format_nat.simps [simp del]

definition format_int :: "int \<Rightarrow> string" where
  "format_int i = (if i < 0 then CHR ''-'' # format_nat (nat (- i)) else format_nat (nat i))"

section \<open>Types of the generated API client\<close>

text \<open>
  Modelled from the spec: the declarations of the request and response types, which
  \<open>oapi-codegen\<close> generates into \<open>cloudriftapi.gen.go\<close> (see \<open>gen.go\<close>); that file is not part of
  the sources.  Each record has the fields that the code under verification reads, under the
  field's Go name behind a prefix for the type.  \<open>InstanceStatus\<close> is a Go string type; its
  four constants have the values that the API sends.
\<close>

type_synonym InstanceStatus = string

definition Initializing :: InstanceStatus where
  "Initializing = ''Initializing''"

definition Active :: InstanceStatus where
  "Active = ''Active''"

definition Deactivating :: InstanceStatus where
  "Deactivating = ''Deactivating''"

definition Inactive :: InstanceStatus where
  "Inactive = ''Inactive''"

text \<open>
  \<open>vm_LoginInfo\<close> is the pointer \<open>vm.LoginInfo\<close>; where it is set, it holds what
  \<open>AsInstanceLoginInfo0\<close> makes of the union: an error, or the \<open>UsernameAndPassword.Username\<close>.
\<close>

record VirtualMachineInfo =
  vm_Vmid :: int
  vm_Name :: string
  vm_LoginInfo :: "(error + string) option"
  vm_Ready :: bool

record ResourceInfo =
  ri_ProviderName :: string
  ri_InstanceType :: string

record InstanceAndUsageInfo =
  inst_Id :: string
  inst_Status :: InstanceStatus
  inst_NodeId :: string
  inst_NodeMode :: string
  inst_NodeStatus :: string
  inst_HostAddress :: "string option"
  inst_InternalHostAddress :: "string option"
  inst_ResourceInfo :: "ResourceInfo option"
  inst_VirtualMachines :: "VirtualMachineInfo list"

record SshKey =
  key_Id :: string
  key_Name :: string
  key_PublicKey :: string

record RecipeVirtualMachine =
  CloudinitUrl :: string
  ImageUrl :: string

record RecipeDetails1 =
  VirtualMachine :: RecipeVirtualMachine

text \<open>The zero value \<open>var empty RecipeDetails1\<close>.\<close>

definition empty_RecipeDetails1 :: RecipeDetails1 where
  "empty_RecipeDetails1 = \<lparr>VirtualMachine = \<lparr>CloudinitUrl = '''', ImageUrl = ''''\<rparr>\<rparr>"

text \<open>
  \<open>recipe_Details\<close> is what \<open>json.Unmarshal(r.Details.union, &vmDetails)\<close> makes of the opaque
  details of a recipe: an error, or the value left in \<open>vmDetails\<close>.
\<close>

record Recipe =
  recipe_Name :: string
  recipe_Details :: "error + RecipeDetails1"

record RecipeGroup =
  group_Recipes :: "Recipe list"

record ListRecipesResponseProto =
  Groups :: "RecipeGroup list"

record RentInstanceResponseProto =
  InstanceIds :: "string list"

record ListInstancesResponseProto =
  Instances :: "InstanceAndUsageInfo list"

text \<open>
  A parsed response \<open>*XResponse\<close> of the generated client is a pointer that may be nil, to a
  struct whose field \<open>JSON200\<close> (or \<open>JSON201\<close>) is set when the body was decoded for that
  status: \<open>'a option option\<close>, the outer \<open>None\<close> for the nil pointer.
\<close>

type_synonym 'a parsed = "'a option option"

section \<open>The transport layer: DoRequestWithApiToken\<close>

text \<open>
  \<open>time.Duration\<close> is a signed 64-bit count of nanoseconds; \<open>backoff << 1\<close> is a shift of
  that machine word.
\<close>

type_synonym Duration = "64 word"

definition Second :: Duration where
  "Second = 1000000000"

record Request =
  req_URL :: string
  req_Header :: "(string \<times> string) list"

record Response =
  resp_StatusCode :: int
  resp_Status :: string
  resp_Body :: "error + string"

record AuthData =
  Token :: string

text \<open>
  \<open>HttpClient\<close>.  Its field \<open>HTTPClient\<close>, the underlying \<open>http.Client\<close>, is the environment
  of the transport: \<open>do n req\<close> is what the \<open>n\<close>-th call of \<open>c.HTTPClient.Do(req)\<close> made for
  one request returns, a transport error or a response.
\<close>

record HttpClient =
  HostURL :: string
  auth :: AuthData
  retries :: int
  ProtoVersion :: string
  vmRecipies :: "string \<rightharpoonup> RecipeDetails1"

type_synonym transport = "nat \<Rightarrow> Request \<Rightarrow> error + Response"

text \<open>
  What one run of the transport did, beside its result: the number of calls of \<open>Do\<close> and the
  durations handed to \<open>time.Sleep\<close>, in order.
\<close>

record trace =
  calls :: nat
  slept :: "Duration list"

text \<open>
  The retry loop \<open>for retries := c.retries; retries > 0; retries--\<close>.  \<open>cur\<close> is the pair
  \<open>(resp, err)\<close> as the loop finds it.
\<close>

function retry_loop ::
  "transport \<Rightarrow> Request \<Rightarrow> int \<Rightarrow> Duration \<Rightarrow> trace \<Rightarrow> error + Response
     \<Rightarrow> (error + Response) \<times> trace" where
  "retry_loop do req n backoff tr cur =
     (if n > 0 then
        (let tr1 = tr\<lparr>slept := slept tr @ [backoff]\<rparr>;
             backoff1 = push_bit 1 backoff;
             r = do (calls tr1) req;
             tr2 = tr1\<lparr>calls := Suc (calls tr1)\<rparr>
         in case r of
              Inr resp \<Rightarrow> (r, tr2)
            | Inl err \<Rightarrow> retry_loop do req (n - 1) backoff1 tr2 r)
      else (cur, tr))"
  by pat_completeness auto
termination
  by (relation "measure (\<lambda>(do, req, n, backoff, tr, cur). nat n)") auto

declare retry_loop.simps [simp del]

text \<open>
  \<open>DoRequestWithApiToken\<close>: the token header, the first call, the retries when it failed, then
  the classification of the response's status and the caller's parser.
\<close>

definition DoRequestWithApiToken ::
  "HttpClient \<Rightarrow> transport \<Rightarrow> Request \<Rightarrow> (Response \<Rightarrow> error + 'p)
     \<Rightarrow> (error + 'p) \<times> trace" where
  "DoRequestWithApiToken c do req0 parse =
     (let req = req0\<lparr>req_Header := req_Header req0 @ [(''X-API-KEY'', Token (auth c))]\<rparr>;
          first = do 0 req;
          tr0 = \<lparr>calls = 1, slept = []\<rparr>;
          (r, tr) = (case first of
                       Inr resp \<Rightarrow> (first, tr0)
                     | Inl err \<Rightarrow> retry_loop do req (retries c) Second tr0 first)
      in case r of
           Inl err \<Rightarrow>
             (Inl (ErrorWrap ''request failed: '' err
                     ('', the failed request was retried: '' @ format_int (retries c) @ ''x'')),
              tr)
         | Inr resp \<Rightarrow>
             (if \<not> (resp_StatusCode resp \<ge> 200 \<and> resp_StatusCode resp < 300) then
                (if resp_StatusCode resp = 404 then (Inl ErrNotFound, tr)
                 else case resp_Body resp of
                        Inl err \<Rightarrow> (Inl err, tr)
                      | Inr body \<Rightarrow>
                          (Inl (ErrorNew (''request '' @ req_URL req @ '' failed: '' @ resp_Status resp
                                          @ '': body: '' @ body)),
                           tr))
              else (parse resp, tr)))"

text \<open>The request as it is sent: \<open>req.Header.Add("X-API-KEY", c.auth.Token)\<close>.\<close>

definition with_token :: "HttpClient \<Rightarrow> Request \<Rightarrow> Request" where
  "with_token c req = req\<lparr>req_Header := req_Header req @ [(''X-API-KEY'', Token (auth c))]\<rparr>"

section \<open>The API client\<close>

text \<open>
  A method of \<open>HttpClient\<close> that talks to the server takes what the server side of the call
  produced as arguments: \<open>newReq\<close> is the outcome of the generated request builder (together
  with the selector and JSON encoding steps before it, which fail the same way), and
  \<open>doReq req\<close> the outcome of \<open>DoRequestWithApiToken(c, req, Parse...)\<close> for the request built.
\<close>

text \<open>
  \<open>strings.ToLower\<close> on the bytes of a string: the letters \<open>A\<close> to \<open>Z\<close> move to \<open>a\<close> to \<open>z\<close>.
  Go maps the letters of other scripts as well; here every byte outside ASCII stays as it is.
\<close>

definition toLowerByte :: "char \<Rightarrow> char" where
  "toLowerByte ch =
     (let n = (of_char ch :: nat) in if 65 \<le> n \<and> n \<le> 90 then char_of (n + 32) else ch)"

definition strings_ToLower :: "string \<Rightarrow> string" where
  "strings_ToLower s = map toLowerByte s"

subsection \<open>Recipes\<close>

definition ListRecipes ::
  "(error + Request) \<Rightarrow> (Request \<Rightarrow> error + ListRecipesResponseProto parsed)
     \<Rightarrow> error + ListRecipesResponseProto option" where
  "ListRecipes newReq doReq =
     (case newReq of
        Inl err \<Rightarrow> Inl err
      | Inr req \<Rightarrow>
          (case doReq req of
             Inl err \<Rightarrow> Inl err
           | Inr (Some (Some json200)) \<Rightarrow> Inr (Some json200)
           | Inr _ \<Rightarrow>
               Inl (ErrorNew (''listing recipes failed, expected response with code 200 which ''
                  @ ''was not returned, but no error occurred with the request itself, most ''
                  @ ''likely the API changed or the response has a missing 'Content-Type' ''
                  @ ''for json''))))"

text \<open>The body of the inner loop of \<open>refreshVMRecipeCache\<close>, for one recipe \<open>r\<close>.\<close>

definition cache_recipe ::
  "(string \<rightharpoonup> RecipeDetails1) \<Rightarrow> Recipe \<Rightarrow> (string \<rightharpoonup> RecipeDetails1)" where
  "cache_recipe m r =
     (case recipe_Details r of
        Inl err \<Rightarrow> m
      | Inr vmDetails \<Rightarrow>
          (if vmDetails \<noteq> empty_RecipeDetails1
           then (let name = strings_ToLower (recipe_Name r) in m(name \<mapsto> vmDetails))
           else m))"

text \<open>
  \<open>refreshVMRecipeCache\<close>.  \<open>listRecipes n\<close> is the outcome of the call of \<open>c.ListRecipes()\<close>
  made when \<open>n\<close> such calls were made before; the count of calls is returned with the
  client, whose cache the two loops update in place.
\<close>

definition refreshVMRecipeCache ::
  "HttpClient \<Rightarrow> (nat \<Rightarrow> error + ListRecipesResponseProto option) \<Rightarrow> nat
     \<Rightarrow> error option \<times> HttpClient \<times> nat" where
  "refreshVMRecipeCache c listRecipes n =
     (case listRecipes n of
        Inl err \<Rightarrow> (Some (ErrorWrap ''failed to list recipes: '' err ''''), c, Suc n)
      | Inr None \<Rightarrow> (Some (ErrorNew ''invalid JSON response''), c, Suc n)
      | Inr (Some recipes) \<Rightarrow>
          (None,
           c\<lparr>vmRecipies :=
                foldl (\<lambda>m group. foldl cache_recipe m (group_Recipes group))
                  (vmRecipies c) (Groups recipes)\<rparr>,
           Suc n))"

definition findVMRecipe ::
  "HttpClient \<Rightarrow> (nat \<Rightarrow> error + ListRecipesResponseProto option) \<Rightarrow> nat \<Rightarrow> string
     \<Rightarrow> (error + RecipeDetails1) \<times> HttpClient \<times> nat" where
  "findVMRecipe c listRecipes n recipe =
     (case vmRecipies c recipe of
        Some found \<Rightarrow> (Inr found, c, n)
      | None \<Rightarrow>
          (case refreshVMRecipeCache c listRecipes n of
             (Some err, c1, n1) \<Rightarrow> (Inl err, c1, n1)
           | (None, c1, n1) \<Rightarrow>
               (case vmRecipies c1 recipe of
                  None \<Rightarrow> (Inl (ErrorNew (''recipe '' @ recipe @ '' not found'')), c1, n1)
                | Some found \<Rightarrow> (Inr found, c1, n1))))"

subsection \<open>SSH keys\<close>

definition DeleteSSHKey ::
  "(error + Request) \<Rightarrow> (Request \<Rightarrow> error + 'p) \<Rightarrow> error option" where
  "DeleteSSHKey newReq doReq =
     (case newReq of
        Inl err \<Rightarrow> Some err
      | Inr req \<Rightarrow> (case doReq req of Inl err \<Rightarrow> Some err | Inr resp \<Rightarrow> None))"

definition ListSSHKeys ::
  "(error + Request) \<Rightarrow> (Request \<Rightarrow> error + SshKey list parsed) \<Rightarrow> error + SshKey list" where
  "ListSSHKeys newReq doReq =
     (case newReq of
        Inl err \<Rightarrow> Inl err
      | Inr req \<Rightarrow>
          (case doReq req of
             Inl err \<Rightarrow> Inl err
           | Inr (Some (Some keys)) \<Rightarrow> Inr keys
           | Inr _ \<Rightarrow>
               Inl (ErrorNew (''listing ssh-keys failed, expected response with code 200 which ''
                  @ ''was not returned, but no error occurred with the request itself, most ''
                  @ ''likely the API changed, or the response has a missing 'Content-Type' ''
                  @ ''for json''))))"

subsection \<open>Instances\<close>

text \<open>
  In \<open>TerminateInstance\<close> and \<open>GetInstance\<close>, \<open>selector\<close> is the error, if any, of
  \<open>selector.FromInstancesSelector0(InstancesSelector0{ById: []string{id}})\<close>.
\<close>

definition TerminateInstance ::
  "error option \<Rightarrow> (error + Request) \<Rightarrow> (Request \<Rightarrow> error + 'p) \<Rightarrow> error option" where
  "TerminateInstance selector newReq doReq =
     (case selector of
        Some err \<Rightarrow> Some err
      | None \<Rightarrow>
          (case newReq of
             Inl err \<Rightarrow> Some err
           | Inr req \<Rightarrow> (case doReq req of Inl err \<Rightarrow> Some err | Inr resp \<Rightarrow> None)))"

definition listInstances ::
  "(error + Request) \<Rightarrow> (Request \<Rightarrow> error + ListInstancesResponseProto parsed)
     \<Rightarrow> error + ListInstancesResponseProto" where
  "listInstances newReq doReq =
     (case newReq of
        Inl err \<Rightarrow> Inl err
      | Inr req \<Rightarrow>
          (case doReq req of
             Inl err \<Rightarrow> Inl err
           | Inr (Some (Some json200)) \<Rightarrow> Inr json200
           | Inr _ \<Rightarrow>
               Inl (ErrorNew (''listing instances failed, expected response with code 200 ''
                  @ ''which was not returned, but no error occurred with the request itself, ''
                  @ ''most likely the API changed, or the response has a missing ''
                  @ '''Content-Type' for json''))))"

text \<open>The loop \<open>for _, i := range instances.Data.Instances\<close> of \<open>GetInstance\<close>.\<close>

fun GetInstance_loop :: "InstanceAndUsageInfo list \<Rightarrow> string \<Rightarrow> error + InstanceAndUsageInfo" where
  "GetInstance_loop [] iid = Inl ErrNotFound"
| "GetInstance_loop (i # rest) iid =
     (if inst_Id i = iid then
        (if inst_Status i = Inactive then Inl ErrNotFound else Inr i)
      else GetInstance_loop rest iid)"

text \<open>\<open>GetInstance\<close>; \<open>instances\<close> is the outcome of \<open>c.listInstances(selector)\<close>.\<close>

definition GetInstance ::
  "error option \<Rightarrow> (error + ListInstancesResponseProto) \<Rightarrow> string
     \<Rightarrow> error + InstanceAndUsageInfo" where
  "GetInstance selector instances iid =
     (case selector of
        Some err \<Rightarrow> Inl err
      | None \<Rightarrow>
          (case instances of
             Inl err \<Rightarrow> Inl err
           | Inr l \<Rightarrow> GetInstance_loop (Instances l) iid))"

subsection \<open>Renting\<close>



section \<open>The Terraform provider\<close>

subsection \<open>Values and diagnostics of the plugin framework\<close>

text \<open>
  A framework value (\<open>types.String\<close>, \<open>types.Int64\<close>, \<open>types.List\<close>) is null, unknown or known;
  the zero value of the Go type is null.  \<open>ValueString\<close> is the empty string unless the value
  is known.
\<close>

datatype 'a attr_value = Null | Unknown | Value 'a

type_synonym types_String = "string attr_value"

abbreviation StringValue :: "string \<Rightarrow> types_String" where
  "StringValue s \<equiv> Value s"

fun ValueString :: "types_String \<Rightarrow> string" where
  "ValueString Null = ''''"
| "ValueString Unknown = ''''"
| "ValueString (Value s) = s"

datatype Diagnostic = ErrorDiagnostic string string | WarningDiagnostic string string

fun is_error :: "Diagnostic \<Rightarrow> bool" where
  "is_error (ErrorDiagnostic summary detail) = True"
| "is_error (WarningDiagnostic summary detail) = False"

text \<open>\<open>Diagnostics.Append\<close> skips a diagnostic that the collection already contains.\<close>

definition Append :: "Diagnostic list \<Rightarrow> Diagnostic list \<Rightarrow> Diagnostic list" where
  "Append diags new = foldl (\<lambda>ds d. if d \<in> set ds then ds else ds @ [d]) diags new"

definition AddError :: "Diagnostic list \<Rightarrow> string \<Rightarrow> string \<Rightarrow> Diagnostic list" where
  "AddError diags summary detail = Append diags [ErrorDiagnostic summary detail]"

definition HasError :: "Diagnostic list \<Rightarrow> bool" where
  "HasError diags = (\<exists>d \<in> set diags. is_error d)"

text \<open>
  What a resource method leaves in its response: the diagnostics, and the state, \<open>None\<close> when
  the resource has none (never set during a create, or removed by \<open>RemoveResource\<close>).
  \<open>resp.State.Set\<close> stores the model it is given; the model's Go type fits the schema, so it
  returns no diagnostics.
\<close>

record 'm resource_response =
  Diagnostics :: "Diagnostic list"
  State :: "'m option"

subsection \<open>The virtual machine resource\<close>

record virtualMachineMetadataModel =
  StartupCommands :: types_String

record virtualMachineInfoModel =
  VmID :: "int attr_value"
  Name :: types_String
  Username :: types_String

record virtualMachineModel =
  ID :: types_String
  Status :: types_String
  NodeId :: types_String
  NodeMode :: types_String
  NodeStatus :: types_String
  PublicIP :: types_String
  PrivateIP :: types_String
  ProviderName :: types_String
  InstanceType :: types_String
  VirtualMachines :: "virtualMachineInfoModel list attr_value"
  Metadata :: "virtualMachineMetadataModel option"
  Recipe :: types_String
  Datacenter :: types_String
  SSHKeyID :: types_String

text \<open>The body of the loop over \<open>data.VirtualMachines\<close> in \<open>populateModelFromInstanceResponse\<close>.\<close>

definition vm_info_model :: "VirtualMachineInfo \<Rightarrow> virtualMachineInfoModel" where
  "vm_info_model vm =
     (let model = \<lparr>VmID = Value (vm_Vmid vm), Name = StringValue (vm_Name vm), Username = Null\<rparr>
      in case vm_LoginInfo vm of
           None \<Rightarrow> model
         | Some (Inl err) \<Rightarrow> model
         | Some (Inr username) \<Rightarrow> model\<lparr>Username := StringValue username\<rparr>)"

text \<open>
  \<open>populateModelFromInstanceResponse\<close> updates the model in place and returns diagnostics.
  These come from \<open>types.ObjectValue\<close> and \<open>types.ListValue\<close>, which report a value whose type
  differs from the declared attribute type; the values built here have the declared types, so
  the list is empty.
\<close>

definition populateModelFromInstanceResponse ::
  "virtualMachineModel \<Rightarrow> InstanceAndUsageInfo \<Rightarrow> virtualMachineModel \<times> Diagnostic list" where
  "populateModelFromInstanceResponse m data =
     (let m1 = m\<lparr>ID := StringValue (inst_Id data),
                 Status := StringValue (inst_Status data),
                 NodeId := StringValue (inst_NodeId data),
                 NodeMode := StringValue (inst_NodeMode data),
                 NodeStatus := StringValue (inst_NodeStatus data)\<rparr>;
          m2 = (case inst_HostAddress data of
                  Some a \<Rightarrow> m1\<lparr>PublicIP := StringValue a\<rparr>
                | None \<Rightarrow> m1);
          m3 = (case inst_InternalHostAddress data of
                  Some a \<Rightarrow> m2\<lparr>PrivateIP := StringValue a\<rparr>
                | None \<Rightarrow> m2);
          m4 = (case inst_ResourceInfo data of
                  Some info \<Rightarrow> m3\<lparr>ProviderName := StringValue (ri_ProviderName info),
                                   InstanceType := StringValue (ri_InstanceType info)\<rparr>
                | None \<Rightarrow> m3);
          vms = map vm_info_model (inst_VirtualMachines data)
      in (m4\<lparr>VirtualMachines := Value vms\<rparr>, []))"

text \<open>
  The triggers of the \<open>select\<close> in the poll loop of \<open>Create\<close>, as the runtime delivers them:
  the provisioning timer, \<open>ctx.Done()\<close> with the value of \<open>ctx.Err()\<close>, and the polling timer
  with what \<open>GetInstance\<close> then gets from the server (the selector error, if any, and the
  outcome of \<open>listInstances\<close>).
\<close>

datatype create_event =
    ProvisioningTimeout
  | CtxDone "error option"
  | PollTick "error option" "error + ListInstancesResponseProto"

text \<open>
  The client as \<open>Create\<close> sees it: the outcome of \<open>r.client.ListSSHKeys()\<close>, and
  \<open>r.client.RentPublicInstanceVM\<close> as a function of its five arguments.
\<close>

record create_client =
  client_ListSSHKeys :: "error + SshKey list"
  client_RentPublicInstanceVM ::
    "string \<Rightarrow> string \<Rightarrow> string \<Rightarrow> string \<Rightarrow> string list \<Rightarrow> error + RentInstanceResponseProto"

text \<open>
  The merge before a failure is stored: \<open>if last != nil { populate... }\<close>, where \<open>lastp\<close> is
  the pointer \<open>last\<close>.
\<close>

definition merge_last ::
  "virtualMachineModel resource_response \<Rightarrow> virtualMachineModel \<Rightarrow> InstanceAndUsageInfo option
     \<Rightarrow> virtualMachineModel resource_response \<times> virtualMachineModel" where
  "merge_last resp plan lastp =
     (case lastp of
        Some l \<Rightarrow>
          (case populateModelFromInstanceResponse plan l of
             (plan1, diags) \<Rightarrow> (resp\<lparr>Diagnostics := Append (Diagnostics resp) diags\<rparr>, plan1))
      | None \<Rightarrow> (resp, plan))"

text \<open>
  The poll loop of \<open>Create\<close>, over the events still to come.  When they run out the loop has
  not returned: the result is \<open>None\<close>.
\<close>

fun Create_poll ::
  "string \<Rightarrow> create_event list \<Rightarrow> virtualMachineModel \<Rightarrow> InstanceAndUsageInfo option
     \<Rightarrow> virtualMachineModel resource_response \<Rightarrow> virtualMachineModel resource_response option"
  where
  "Create_poll iid [] plan lastp resp = None"
| "Create_poll iid (ProvisioningTimeout # events) plan lastp resp =
     (case merge_last resp plan lastp of
        (resp1, plan1) \<Rightarrow>
          (let resp2 = resp1\<lparr>State := Some plan1\<rparr>
           in Some (resp2\<lparr>Diagnostics := AddError (Diagnostics resp2)
                       ''Provisioning timeout reached''
                       ''Provisioning timeout reached before finished waiting on instance creation''\<rparr>)))"
| "Create_poll iid (CtxDone ctxErr # events) plan lastp resp =
     (case merge_last resp plan lastp of
        (resp1, plan1) \<Rightarrow>
          (let resp2 = resp1\<lparr>State := Some plan1\<rparr>
           in case ctxErr of
                Some err \<Rightarrow>
                  Some (resp2\<lparr>Diagnostics := AddError (Diagnostics resp2)
                          ''Polling Interval Canceled''
                          (''Polling interval canceled before finished waiting on instance creation: ''
                           @ Error err)\<rparr>)
              | None \<Rightarrow> Some resp2))"
| "Create_poll iid (PollTick selector instances # events) plan lastp resp =
     (case GetInstance selector instances iid of
        Inl err \<Rightarrow>
          (let resp2 =
                 (if \<not> errors_Is_ErrNotFound err then
                    (case merge_last resp plan lastp of
                       (resp1, plan1) \<Rightarrow> resp1\<lparr>State := Some plan1\<rparr>)
                  else resp)
           in Some (resp2\<lparr>Diagnostics := AddError (Diagnostics resp2)
                       ''Error creating Virtual Machine''
                       (''Could not create Virtual Machine, failed to poll status of the rented Virtual Machine ID: ''
                        @ iid @ '' : '' @ Error err)\<rparr>))
      | Inr current \<Rightarrow>
          (let last1 = current;
               vmReady = (length (inst_VirtualMachines last1) > 0
                          \<and> vm_Ready (inst_VirtualMachines last1 ! 0))
           in if inst_Status last1 = Active \<and> vmReady then
                (case populateModelFromInstanceResponse plan last1 of
                   (plan1, diags) \<Rightarrow>
                     Some (resp\<lparr>Diagnostics := Append (Diagnostics resp) diags,
                                State := Some plan1\<rparr>))
              else Create_poll iid events plan (Some last1) resp))"

text \<open>
  \<open>virtualMachineResource.Create\<close>.  \<open>req_Plan\<close> is what \<open>req.Plan.Get(ctx, &plan)\<close> gives: its
  diagnostics and the decoded plan.
\<close>

definition virtualMachineResource_Create ::
  "create_client \<Rightarrow> create_event list \<Rightarrow> Diagnostic list \<times> virtualMachineModel
     \<Rightarrow> virtualMachineModel resource_response option" where
  "virtualMachineResource_Create client events req_Plan =
     (case req_Plan of (diags, plan) \<Rightarrow>
      (let resp = \<lparr>Diagnostics = Append [] diags, State = None\<rparr> in
      if HasError (Diagnostics resp) then Some resp
      else
        (case client_ListSSHKeys client of
          Inl err \<Rightarrow>
            Some (resp\<lparr>Diagnostics := AddError (Diagnostics resp)
                    ''Error reading CloudRift SSH Keys''
                    (''Could not list CloudRift SSH Keys needed for the Virtual Machine: ''
                     @ Error err)\<rparr>)
        | Inr keys \<Rightarrow>
            (case find (\<lambda>k. key_Id k = ValueString (SSHKeyID plan)) keys of
               None \<Rightarrow>
                 Some (resp\<lparr>Diagnostics := AddError (Diagnostics resp)
                         ''Error fetching Virtual Machine SSH Key''
                         (''Could not fetch Virtual Machine SSH Key with ID: ''
                          @ ValueString (SSHKeyID plan) @ '' as it doest not exists'')\<rparr>)
             | Some matched \<Rightarrow>
                 (let startupCommands =
                        (case Metadata plan of
                           Some md \<Rightarrow> ValueString (StartupCommands md)
                         | None \<Rightarrow> '''')
                  in case client_RentPublicInstanceVM client
                            (ValueString (Recipe plan)) (ValueString (Datacenter plan))
                            (ValueString (InstanceType plan)) startupCommands
                            [key_PublicKey matched] of
                       Inl err \<Rightarrow>
                         Some (resp\<lparr>Diagnostics := AddError (Diagnostics resp)
                                 ''Error creating Virtual Machine''
                                 (''Could not create Virtual Machine, unexpected error: ''
                                  @ Error err)\<rparr>)
                     | Inr ids \<Rightarrow>
                         (case InstanceIds ids of
                            [] \<Rightarrow>
                              Some (resp\<lparr>Diagnostics := AddError (Diagnostics resp)
                                      ''Error creating Virtual Machine''
                                      ''Could not create Virtual Machine, no valid IDs were returned from the CloudRift server''\<rparr>)
                          | iid # others \<Rightarrow>
                              Create_poll iid events (plan\<lparr>ID := StringValue iid\<rparr>) None resp))))))"

text \<open>
  \<open>virtualMachineResource.Read\<close>.  The framework hands the method a response whose state is
  the prior state; \<open>selector\<close> and \<open>instances\<close> are what \<open>GetInstance\<close> gets from the server.
\<close>

definition virtualMachineResource_Read ::
  "error option \<Rightarrow> (error + ListInstancesResponseProto) \<Rightarrow> Diagnostic list \<times> virtualMachineModel
     \<Rightarrow> virtualMachineModel resource_response" where
  "virtualMachineResource_Read selector instances req_State =
     (case req_State of (diags, state) \<Rightarrow>
      (let resp = \<lparr>Diagnostics = Append [] diags, State = Some state\<rparr> in
      if HasError (Diagnostics resp) then resp
      else
        (case GetInstance selector instances (ValueString (ID state)) of
          Inl err \<Rightarrow>
            (if errors_Is_ErrNotFound err then resp\<lparr>State := None\<rparr>
             else resp\<lparr>Diagnostics := AddError (Diagnostics resp)
                     ''Error reading CloudRift Virtual Machine''
                     (''Cloud not fetch CloudRift Virtual Machine with ID: ''
                      @ ValueString (ID state) @ '' : '' @ Error err)\<rparr>)
        | Inr vm \<Rightarrow>
            (case populateModelFromInstanceResponse state vm of
               (state1, diags1) \<Rightarrow>
                 (let resp1 = resp\<lparr>Diagnostics := Append (Diagnostics resp) diags1\<rparr>
                  in if HasError (Diagnostics resp1) then resp1
                     else resp1\<lparr>State := Some state1\<rparr>)))))"

text \<open>The triggers of the \<open>select\<close> in the poll loop of \<open>Delete\<close>; it arms no deadline.\<close>

datatype delete_event =
    DeleteCtxDone "error option"
  | DeleteTick "error option" "error + ListInstancesResponseProto"

fun Delete_poll :: "string \<Rightarrow> delete_event list \<Rightarrow> Diagnostic list \<Rightarrow> Diagnostic list option" where
  "Delete_poll iid [] diags = None"
| "Delete_poll iid (DeleteCtxDone ctxErr # events) diags =
     (case ctxErr of
        Some err \<Rightarrow>
          Some (AddError diags ''Polling Interval Canceled''
                  (''Polling interval canceled before finished waiting on instance destruction: ''
                   @ Error err))
      | None \<Rightarrow> Some diags)"
| "Delete_poll iid (DeleteTick selector instances # events) diags =
     (case GetInstance selector instances iid of
        Inl err \<Rightarrow>
          (if errors_Is_ErrNotFound err then Some diags
           else Some (AddError diags ''Client Error''
                        (''Polling Instance while marked for deletion: '' @ Error err)))
      | Inr i \<Rightarrow> Delete_poll iid events diags)"

text \<open>
  \<open>virtualMachineResource.Delete\<close>; \<open>terminate\<close> is the result of
  \<open>r.client.TerminateInstance(state.ID.ValueString())\<close>.  The method writes diagnostics only:
  the result is \<open>resp.Diagnostics\<close>, or \<open>None\<close> while the loop has not returned.
\<close>

definition virtualMachineResource_Delete ::
  "error option \<Rightarrow> delete_event list \<Rightarrow> Diagnostic list \<times> virtualMachineModel
     \<Rightarrow> Diagnostic list option" where
  "virtualMachineResource_Delete terminate events req_State =
     (case req_State of (diags0, state) \<Rightarrow>
      (let diags = Append [] diags0 in
      if HasError diags then Some diags
      else
        (case terminate of
          Some err \<Rightarrow>
            (if errors_Is_ErrNotFound err then Some diags
             else Some (AddError diags ''Error Delete Virtual Machine''
                          (''Could not delete Virtual Machine with ID ''
                           @ ValueString (ID state) @ '': '' @ Error err)))
        | None \<Rightarrow> Delete_poll (ValueString (ID state)) events diags)))"

subsection \<open>The SSH key resource\<close>

record sshKeyModel =
  ssh_ID :: types_String
  ssh_Name :: types_String
  ssh_PublicKey :: types_String

text \<open>
  \<open>sshKeyResource.Delete\<close>; \<open>delete\<close> is the result of
  \<open>r.client.DeleteSSHKey(state.ID.ValueString())\<close>, and the result is \<open>resp.Diagnostics\<close>.
\<close>

definition sshKeyResource_Delete ::
  "error option \<Rightarrow> Diagnostic list \<times> sshKeyModel \<Rightarrow> Diagnostic list" where
  "sshKeyResource_Delete delete req_State =
     (case req_State of (diags0, state) \<Rightarrow>
      (let diags = Append [] diags0 in
      if HasError diags then diags
      else
        (case delete of
          Some err \<Rightarrow>
            (if errors_Is_ErrNotFound err then diags
             else AddError diags ''Error Delete SSH Key''
                    (''Could not delete SSH Key ID '' @ ValueString (ssh_ID state) @ '': ''
                     @ Error err))
        | None \<Rightarrow> diags)))"

subsection \<open>Traces of the poll loop\<close>

text \<open>
  The statements about the poll loop speak of the polling ticks that come before the event
  at which the loop returns.  A tick is the pair that \<open>PollTick\<close> carries; \<open>snapshot iid t\<close> is
  the instance that \<open>GetInstance\<close> returns at tick \<open>t\<close>, if it returns one; and the loop
  \<open>waits\<close> at a tick when it gets an instance there that fails the readiness test of \<open>Create\<close>.
\<close>

type_synonym tick = "error option \<times> (error + ListInstancesResponseProto)"

definition tick_event :: "tick \<Rightarrow> create_event" where
  "tick_event t = PollTick (fst t) (snd t)"

definition snapshot :: "string \<Rightarrow> tick \<Rightarrow> InstanceAndUsageInfo option" where
  "snapshot iid t =
     (case GetInstance (fst t) (snd t) iid of Inl err \<Rightarrow> None | Inr current \<Rightarrow> Some current)"

definition waits :: "string \<Rightarrow> tick \<Rightarrow> bool" where
  "waits iid t =
     (case snapshot iid t of
        None \<Rightarrow> False
      | Some current \<Rightarrow>
          \<not> (inst_Status current = Active
             \<and> length (inst_VirtualMachines current) > 0
             \<and> vm_Ready (inst_VirtualMachines current ! 0)))"

section \<open>Example data\<close>

text \<open>Concrete values at which the theorems below are run.\<close>

definition example_instance :: "string \<Rightarrow> InstanceStatus \<Rightarrow> InstanceAndUsageInfo" where
  "example_instance iid st =
     \<lparr>inst_Id = iid, inst_Status = st, inst_NodeId = ''n1'', inst_NodeMode = ''Virtual Machine'',
      inst_NodeStatus = ''Ready'', inst_HostAddress = Some ''127.0.0.1'',
      inst_InternalHostAddress = None,
      inst_ResourceInfo = Some \<lparr>ri_ProviderName = ''provider'', ri_InstanceType = ''rtx49-8c-nr.1''\<rparr>,
      inst_VirtualMachines = []\<rparr>"


definition example_details :: RecipeDetails1 where
  "example_details = \<lparr>VirtualMachine = \<lparr>CloudinitUrl = ''test'', ImageUrl = ''test''\<rparr>\<rparr>"

definition example_recipes :: ListRecipesResponseProto where
  "example_recipes =
     \<lparr>Groups = [\<lparr>group_Recipes =
        [\<lparr>recipe_Name = ''Ubuntu'', recipe_Details = Inr example_details\<rparr>,
         \<lparr>recipe_Name = ''Docker'', recipe_Details = Inr empty_RecipeDetails1\<rparr>]\<rparr>]\<rparr>"

definition example_client :: HttpClient where
  "example_client =
     \<lparr>HostURL = ''https://api.cloudrift.ai/'', auth = \<lparr>Token = ''t''\<rparr>, retries = 2,
      ProtoVersion = ''2025-06-10'', vmRecipies = Map.empty\<rparr>"



definition example_vm :: "bool \<Rightarrow> VirtualMachineInfo" where
  "example_vm ready =
     \<lparr>vm_Vmid = 100, vm_Name = ''vm-0'', vm_LoginInfo = Some (Inr ''riftuser''),
      vm_Ready = ready\<rparr>"

definition example_tick :: "string \<Rightarrow> InstanceStatus \<Rightarrow> VirtualMachineInfo list \<Rightarrow> tick" where
  "example_tick iid st vms =
     (None, Inr \<lparr>Instances = [(example_instance iid st)\<lparr>inst_VirtualMachines := vms\<rparr>]\<rparr>)"

definition example_keys :: "SshKey list" where
  "example_keys =
     [\<lparr>key_Id = ''1'', key_Name = ''test-key'', key_PublicKey = ''ssh-rsa AAAA testuser''\<rparr>,
      \<lparr>key_Id = ''11111'', key_Name = ''anotheruser-key'',
       key_PublicKey = ''ssh-rsa AAAA anotheruser''\<rparr>]"

definition example_plan :: virtualMachineModel where
  "example_plan =
     \<lparr>ID = Unknown, Status = Unknown, NodeId = Unknown, NodeMode = Unknown, NodeStatus = Unknown,
      PublicIP = Unknown, PrivateIP = Unknown, ProviderName = Unknown,
      InstanceType = StringValue ''rtx49-8c-nr.1'', VirtualMachines = Unknown,
      Metadata = Some \<lparr>StartupCommands = StringValue ''IyEvYmluL2Jhc2g=''\<rparr>,
      Recipe = StringValue ''ubuntu'', Datacenter = StringValue ''us-east-nc-nr-1'',
      SSHKeyID = StringValue ''11111''\<rparr>"

text \<open>A client whose key listing holds the plan's key and whose rent call returns \<open>ids\<close>.\<close>

definition example_create_client :: "string list \<Rightarrow> create_client" where
  "example_create_client ids =
     \<lparr>client_ListSSHKeys = Inr example_keys,
      client_RentPublicInstanceVM =
        (\<lambda>recipe datacenter instance commands pubKeys. Inr \<lparr>InstanceIds = ids\<rparr>)\<rparr>"

definition example_state :: virtualMachineModel where
  "example_state = example_plan\<lparr>ID := StringValue ''1'', Status := StringValue ''Initializing''\<rparr>"

definition example_key_state :: sshKeyModel where
  "example_key_state =
     \<lparr>ssh_ID = StringValue ''11111'', ssh_Name = StringValue ''anotheruser-key'',
      ssh_PublicKey = StringValue ''ssh-rsa AAAA anotheruser''\<rparr>"

definition example_request :: Request where
  "example_request = \<lparr>req_URL = ''https://api.cloudrift.ai/api/v1/x'', req_Header = []\<rparr>"

text \<open>The transport against a server that answers every call with one status and body.\<close>

definition example_doReq :: "int \<Rightarrow> string \<Rightarrow> string \<Rightarrow> Request \<Rightarrow> error + unit" where
  "example_doReq code status body req =
     fst (DoRequestWithApiToken example_client
            (\<lambda>i rq. Inr \<lparr>resp_StatusCode = code, resp_Status = status, resp_Body = Inr body\<rparr>)
            req (\<lambda>resp. Inr ()))"

section \<open>Properties of the transport layer\<close>

lemma backoff_list_step:
  "map (\<lambda>i. b * 2 ^ i) [0..<Suc k] = (b :: Duration) # map (\<lambda>i. push_bit 1 b * 2 ^ i) [0..<k]"
  by (simp add: upt_rec [of 0] map_Suc_upt [symmetric] push_bit_eq_mult mult.assoc mult.commute
        del: upt_Suc)

text \<open>The loop stops at the first call that returns a response, if the retries reach it.\<close>

lemma retry_loop_success:
  "\<forall>i<k. isl (do (calls tr + i) req) \<Longrightarrow> do (calls tr + k) req = Inr resp \<Longrightarrow> int k < n \<Longrightarrow>
   retry_loop do req n b tr cur =
     (Inr resp, \<lparr>calls = calls tr + k + 1, slept = slept tr @ map (\<lambda>i. b * 2 ^ i) [0..<Suc k]\<rparr>)"
proof (induction k arbitrary: n b tr cur)
  case 0
  then show ?case by (subst retry_loop.simps) (simp add: Let_def)
next
  case (Suc k)
  let ?tr2 = "tr\<lparr>slept := slept tr @ [b], calls := Suc (calls tr)\<rparr>"
  from Suc.prems(1) have "isl (do (calls tr) req)" by (metis add.right_neutral zero_less_Suc)
  then obtain e where e: "do (calls tr) req = Inl e" by (cases "do (calls tr) req") auto
  have a: "\<forall>i<k. isl (do (calls ?tr2 + i) req)" using Suc.prems(1) by auto
  have b: "do (calls ?tr2 + k) req = Inr resp" using Suc.prems(2) by simp
  have c: "int k < n - 1" using Suc.prems(3) by simp
  show ?case
    using Suc.IH [OF a b c, of "push_bit 1 b" "Inl e"] Suc.prems(3) e
      backoff_list_step [of b "Suc k"]
    by (subst retry_loop.simps) (simp add: Let_def del: upt_Suc)
qed

text \<open>When every call fails the loop runs \<open>c.retries\<close> times and keeps the last failure.\<close>

lemma retry_loop_exhaust:
  "nat n = k \<Longrightarrow> \<forall>i<k. isl (do (calls tr + i) req) \<Longrightarrow>
   retry_loop do req n b tr cur =
     (if k = 0 then cur else do (calls tr + k - 1) req,
      \<lparr>calls = calls tr + k, slept = slept tr @ map (\<lambda>i. b * 2 ^ i) [0..<k]\<rparr>)"
proof (induction k arbitrary: n b tr cur)
  case 0
  then show ?case by (subst retry_loop.simps) simp
next
  case (Suc k)
  let ?tr2 = "tr\<lparr>slept := slept tr @ [b], calls := Suc (calls tr)\<rparr>"
  from Suc.prems(2) have "isl (do (calls tr) req)" by (metis add.right_neutral zero_less_Suc)
  then obtain e where e: "do (calls tr) req = Inl e" by (cases "do (calls tr) req") auto
  have n: "n > 0" "nat (n - 1) = k" using Suc.prems(1) by auto
  have a: "\<forall>i<k. isl (do (calls ?tr2 + i) req)" using Suc.prems(2) by auto
  show ?case
    using Suc.IH [OF n(2) a, of "push_bit 1 b" "Inl e"] n(1) e backoff_list_step [of b k]
    by (subst retry_loop.simps) (auto simp add: Let_def simp del: upt_Suc)
qed

text \<open>Up to 33 doublings the word holds the exact number of nanoseconds.\<close>

lemma sint_backoff:
  assumes "i < 34"
  shows "sint (Second * 2 ^ i :: Duration) = 1000000000 * 2 ^ i"
proof -
  have le: "(2::int) ^ i \<le> 2 ^ 33"
    using assms by (intro power_increasing) auto
  have up: "(1000000000::int) * 2 ^ i < 2 ^ 63"
  proof -
    have "(1000000000::int) * 2 ^ i \<le> 1000000000 * 2 ^ 33" using le by simp
    also have "\<dots> < 2 ^ 63" by simp
    finally show ?thesis .
  qed
  have lo: "- (2 ^ 63) \<le> (1000000000::int) * 2 ^ i"
    by (rule order_trans [of _ 0]) simp_all
  have w: "(Second * 2 ^ i :: Duration) = word_of_int (1000000000 * 2 ^ i)"
    by (simp add: Second_def)
  have "sint (word_of_int (1000000000 * 2 ^ i) :: Duration)
          = signed_take_bit (LENGTH(64) - 1) (1000000000 * 2 ^ i :: int)"
    by (rule sint_sbintrunc')
  then have "sint (Second * 2 ^ i :: Duration) = signed_take_bit 63 (1000000000 * 2 ^ i :: int)"
    unfolding w by simp
  also have "\<dots> = 1000000000 * 2 ^ i"
    using lo up by (simp add: signed_take_bit_int_eq_self)
  finally show ?thesis .
qed

text \<open>The whole function when the call with index \<open>k\<close> is the first to return a response.\<close>

lemma DoRequest_success:
  assumes fails: "\<forall>i<k. isl (do i (with_token c req))"
      and ok: "do k (with_token c req) = Inr resp"
      and le: "k = 0 \<or> int k \<le> retries c"
  shows "DoRequestWithApiToken c do req parse =
           (fst (DoRequestWithApiToken c (\<lambda>i rq. Inr resp) req parse),
            \<lparr>calls = Suc k, slept = map (\<lambda>i. Second * 2 ^ i) [0..<k]\<rparr>)"
proof (cases k)
  case 0
  with ok show ?thesis
    by (simp add: DoRequestWithApiToken_def with_token_def Let_def split: sum.splits)
next
  case (Suc j)
  let ?rq = "with_token c req"
  let ?tr0 = "\<lparr>calls = 1, slept = []\<rparr>"
  from fails Suc have "isl (do 0 ?rq)" by simp
  then obtain e where e: "do 0 ?rq = Inl e" by (cases "do 0 ?rq") auto
  have a: "\<forall>i<j. isl (do (calls ?tr0 + i) ?rq)" using fails Suc by simp
  have b: "do (calls ?tr0 + j) ?rq = Inr resp" using ok Suc by simp
  have c: "int j < retries c" using le Suc by simp
  have loop: "retry_loop do ?rq (retries c) Second ?tr0 (Inl e) =
          (Inr resp, \<lparr>calls = Suc k, slept = map (\<lambda>i. Second * 2 ^ i) [0..<k]\<rparr>)"
    using retry_loop_success [of j "do" ?tr0 ?rq resp "retries c" Second "Inl e", OF a b c] Suc by simp
  show ?thesis
    using e loop
    by (simp add: DoRequestWithApiToken_def with_token_def [symmetric] Let_def split: sum.splits)
qed

text \<open>
  When the first call and every retry fail, the function gives up after \<open>c.retries\<close> retries
  with an error that wraps the last failure and names the retry count.
\<close>

lemma DoRequest_exhaust:
  assumes fails: "\<forall>i \<le> nat (retries c). isl (do i (with_token c req))"
  shows "DoRequestWithApiToken c do req parse =
           (Inl (ErrorWrap ''request failed: '' (projl (do (nat (retries c)) (with_token c req)))
                   ('', the failed request was retried: '' @ format_int (retries c) @ ''x'')),
            \<lparr>calls = Suc (nat (retries c)), slept = map (\<lambda>i. Second * 2 ^ i) [0..<nat (retries c)]\<rparr>)"
proof -
  let ?rq = "with_token c req"
  let ?tr0 = "\<lparr>calls = 1, slept = []\<rparr>"
  let ?k = "nat (retries c)"
  from fails have "isl (do 0 ?rq)" by simp
  then obtain e where e: "do 0 ?rq = Inl e" by (cases "do 0 ?rq") auto
  have a: "\<forall>i<?k. isl (do (calls ?tr0 + i) ?rq)" using fails by simp
  have loop: "retry_loop do ?rq (retries c) Second ?tr0 (Inl e) =
          (if ?k = 0 then Inl e else do (calls ?tr0 + ?k - 1) ?rq,
           \<lparr>calls = calls ?tr0 + ?k, slept = slept ?tr0 @ map (\<lambda>i. Second * 2 ^ i) [0..<?k]\<rparr>)"
    using retry_loop_exhaust [of "retries c" ?k "do" ?tr0 ?rq Second "Inl e", OF refl a] .
  from fails have "isl (do ?k ?rq)" by simp
  then obtain e' where e': "do ?k ?rq = Inl e'" by (cases "do ?k ?rq") auto
  show ?thesis
  proof (cases "?k = 0")
    case True
    with e e' loop show ?thesis
      by (simp add: DoRequestWithApiToken_def with_token_def [symmetric] Let_def)
  next
    case False
    with e e' loop show ?thesis
      by (simp add: DoRequestWithApiToken_def with_token_def [symmetric] Let_def)
  qed
qed

text \<open>
  Claim C8.  When the calls of \<open>Do\<close> with index below \<open>k\<close> fail at the transport level, the
  call with index \<open>k\<close> returns a response and \<open>k\<close> is within the configured retry count,
  the request is answered from that response after exactly \<open>k + 1\<close> calls, and the sleeps
  between them are 1 second, 2 seconds, 4 seconds and so on: the \<open>i\<close>-th sleep is
  \<open>Second * 2 ^ i\<close> in the 64-bit arithmetic of \<open>time.Duration\<close>, which is the exact count of
  nanoseconds for the first 34 of them.  The witness is the scenario of the specification:
  retry count 2, two failures, then a response.
\<close>

theorem DoRequestWithApiToken_retry_backoff:
  assumes fails: "\<forall>i<k. isl (do i (with_token c req))"
      and ok: "do k (with_token c req) = Inr resp"
      and le: "k = 0 \<or> int k \<le> retries c"
  shows "DoRequestWithApiToken c do req parse =
           (if 200 \<le> resp_StatusCode resp \<and> resp_StatusCode resp < 300 then parse resp
            else if resp_StatusCode resp = 404 then Inl ErrNotFound
            else case resp_Body resp of
                   Inl err \<Rightarrow> Inl err
                 | Inr body \<Rightarrow>
                     Inl (ErrorNew (''request '' @ req_URL req @ '' failed: '' @ resp_Status resp
                                    @ '': body: '' @ body)),
            \<lparr>calls = Suc k, slept = map (\<lambda>i. Second * 2 ^ i) [0..<k]\<rparr>)
         \<and> (\<forall>i<k. i < 34 \<longrightarrow> sint (Second * 2 ^ i :: Duration) = 1000000000 * 2 ^ i)"
proof -
  have "DoRequestWithApiToken c (\<lambda>i rq. Inr resp) req parse =
          (if 200 \<le> resp_StatusCode resp \<and> resp_StatusCode resp < 300 then parse resp
            else if resp_StatusCode resp = 404 then Inl ErrNotFound
            else case resp_Body resp of
                   Inl err \<Rightarrow> Inl err
                 | Inr body \<Rightarrow>
                     Inl (ErrorNew (''request '' @ req_URL req @ '' failed: '' @ resp_Status resp
                                    @ '': body: '' @ body)), \<lparr>calls = 1, slept = []\<rparr>)"
    by (simp add: DoRequestWithApiToken_def Let_def split: sum.splits)
  then show ?thesis
    using DoRequest_success [of k "do" c req resp parse, OF fails ok le] sint_backoff by simp
qed

theorem DoRequestWithApiToken_retry_backoff_witness:
  "DoRequestWithApiToken
     \<lparr>HostURL = ''https://api.cloudrift.ai/'', auth = \<lparr>Token = ''t''\<rparr>, retries = 2,
      ProtoVersion = ''2025-06-10'', vmRecipies = Map.empty\<rparr>
     (\<lambda>i rq. if i < 2 then Inl (ErrorNew ''connection refused'')
              else Inr \<lparr>resp_StatusCode = 200, resp_Status = ''200 OK'', resp_Body = Inr ''ok''\<rparr>)
     \<lparr>req_URL = ''https://api.cloudrift.ai/api/v1/ssh-keys/list'', req_Header = []\<rparr>
     (\<lambda>resp. Inr (resp_StatusCode resp))
   = (Inr 200, \<lparr>calls = 3, slept = [1000000000, 2000000000]\<rparr>)
   \<and> sint (1000000000 :: Duration) = 1000000000 \<and> sint (2000000000 :: Duration) = 2000000000"
proof -
  have "[0..<2] = [0, Suc 0]" by (simp add: numeral_2_eq_2)
  then show ?thesis
    using DoRequestWithApiToken_retry_backoff
    [of 2 "\<lambda>i rq. if i < 2 then Inl (ErrorNew ''connection refused'')
              else Inr \<lparr>resp_StatusCode = 200, resp_Status = ''200 OK'', resp_Body = Inr ''ok''\<rparr>"
        "\<lparr>HostURL = ''https://api.cloudrift.ai/'', auth = \<lparr>Token = ''t''\<rparr>, retries = 2,
      ProtoVersion = ''2025-06-10'', vmRecipies = Map.empty\<rparr>"
        "\<lparr>req_URL = ''https://api.cloudrift.ai/api/v1/ssh-keys/list'', req_Header = []\<rparr>"
        "\<lparr>resp_StatusCode = 200, resp_Status = ''200 OK'', resp_Body = Inr ''ok''\<rparr>"
        "\<lambda>resp. Inr (resp_StatusCode resp)"]
    by (simp add: Second_def)
qed

section \<open>Properties of the API client\<close>

subsection \<open>Lookup of an instance by id\<close>

lemma GetInstance_loop_find:
  "GetInstance_loop l iid =
     (case find (\<lambda>i. inst_Id i = iid) l of
        None \<Rightarrow> Inl ErrNotFound
      | Some i \<Rightarrow> if inst_Status i = Inactive then Inl ErrNotFound else Inr i)"
  by (induction l) simp_all

lemma GetInstance_loop_Inr:
  "GetInstance_loop l iid = Inr i \<Longrightarrow> i \<in> set l \<and> inst_Id i = iid \<and> inst_Status i \<noteq> Inactive"
  by (induction l) (auto split: if_splits)

lemma GetInstance_loop_absent:
  "\<forall>i \<in> set l. inst_Id i = iid \<longrightarrow> inst_Status i = Inactive \<Longrightarrow>
   GetInstance_loop l iid = Inl ErrNotFound"
  by (induction l) auto

text \<open>
  Claim C4.  When the listing succeeds, \<open>GetInstance\<close> answers from the first listed instance
  with the requested id: it returns \<open>ErrNotFound\<close> when there is none or when that instance
  is \<open>Inactive\<close>, and the instance itself otherwise.  So the sentinel is returned whenever every
  listed instance with the id is inactive (in particular when none is listed), and an
  instance that is returned is listed, has the id and is not inactive.
\<close>

theorem GetInstance_inactive_is_not_found:
  "GetInstance None (Inr l) iid =
     (case find (\<lambda>i. inst_Id i = iid) (Instances l) of
        None \<Rightarrow> Inl ErrNotFound
      | Some i \<Rightarrow> if inst_Status i = Inactive then Inl ErrNotFound else Inr i)
   \<and> ((\<forall>i \<in> set (Instances l). inst_Id i = iid \<longrightarrow> inst_Status i = Inactive)
        \<longrightarrow> GetInstance None (Inr l) iid = Inl ErrNotFound)
   \<and> (\<forall>i. GetInstance None (Inr l) iid = Inr i
        \<longrightarrow> i \<in> set (Instances l) \<and> inst_Id i = iid \<and> inst_Status i \<noteq> Inactive)"
proof (intro conjI allI impI)
  show "GetInstance None (Inr l) iid =
     (case find (\<lambda>i. inst_Id i = iid) (Instances l) of
        None \<Rightarrow> Inl ErrNotFound
      | Some i \<Rightarrow> if inst_Status i = Inactive then Inl ErrNotFound else Inr i)"
    unfolding GetInstance_def by (simp add: GetInstance_loop_find)
next
  assume "\<forall>i \<in> set (Instances l). inst_Id i = iid \<longrightarrow> inst_Status i = Inactive"
  then show "GetInstance None (Inr l) iid = Inl ErrNotFound"
    unfolding GetInstance_def by (simp add: GetInstance_loop_absent)
next
  fix i assume "GetInstance None (Inr l) iid = Inr i"
  then have "GetInstance_loop (Instances l) iid = Inr i"
    unfolding GetInstance_def by simp
  then have "i \<in> set (Instances l) \<and> inst_Id i = iid \<and> inst_Status i \<noteq> Inactive"
    by (rule GetInstance_loop_Inr)
  then show "i \<in> set (Instances l)" "inst_Id i = iid" "inst_Status i \<noteq> Inactive"
    by simp_all
qed

theorem GetInstance_inactive_is_not_found_witness:
  "GetInstance None (Inr \<lparr>Instances = [example_instance ''1'' Inactive, example_instance ''2'' Active]\<rparr>) ''1''
     = Inl ErrNotFound
   \<and> GetInstance None (Inr \<lparr>Instances = [example_instance ''1'' Inactive, example_instance ''2'' Active]\<rparr>) ''3''
     = Inl ErrNotFound
   \<and> GetInstance None (Inr \<lparr>Instances = [example_instance ''1'' Inactive, example_instance ''2'' Active]\<rparr>) ''2''
     = Inr (example_instance ''2'' Active)
   \<and> inst_Status (example_instance ''2'' Active) \<noteq> Inactive"
  using GetInstance_inactive_is_not_found
    [of "\<lparr>Instances = [example_instance ''1'' Inactive, example_instance ''2'' Active]\<rparr>" "''1''"]
    GetInstance_inactive_is_not_found
    [of "\<lparr>Instances = [example_instance ''1'' Inactive, example_instance ''2'' Active]\<rparr>" "''3''"]
    GetInstance_inactive_is_not_found
    [of "\<lparr>Instances = [example_instance ''1'' Inactive, example_instance ''2'' Active]\<rparr>" "''2''"]
  by (simp add: example_instance_def Active_def Inactive_def)

subsection \<open>The recipe cache\<close>












text \<open>Lower-casing at the names used in the examples.\<close>

lemma ToLower_examples:
  "strings_ToLower ''Ubuntu'' = ''ubuntu''" "strings_ToLower ''ubuntu'' = ''ubuntu''"
  "strings_ToLower ''UBUNTU'' = ''ubuntu''" "strings_ToLower ''Docker'' = ''docker''"
  by code_simp+

text \<open>
  Claim C5.  \<open>findVMRecipe\<close> returns the cached details at once on a hit: the client and the
  count of \<open>ListRecipes\<close> calls are unchanged.  On a miss it refreshes the cache once, which
  makes one call of \<open>ListRecipes\<close>.  When the refresh fails, its error is the result; otherwise
  the refreshed cache is looked up again and the result is the entry found, or an error whose
  text names the requested recipe.  The lookup consults no call of \<open>ListRecipes\<close> but that one,
  and the count grows by one at most.
\<close>

theorem findVMRecipe_refreshes_once:
  "(\<forall>d. vmRecipies c recipe = Some d \<longrightarrow> findVMRecipe c listRecipes n recipe = (Inr d, c, n))
   \<and> (vmRecipies c recipe = None \<longrightarrow>
        (case refreshVMRecipeCache c listRecipes n of
           (Some err, c1, n1) \<Rightarrow> findVMRecipe c listRecipes n recipe = (Inl err, c1, Suc n)
         | (None, c1, n1) \<Rightarrow>
             findVMRecipe c listRecipes n recipe =
               (case vmRecipies c1 recipe of
                  Some d \<Rightarrow> Inr d
                | None \<Rightarrow> Inl (ErrorNew (''recipe '' @ recipe @ '' not found'')),
                c1, Suc n)))
   \<and> (\<forall>other. other n = listRecipes n
        \<longrightarrow> findVMRecipe c other n recipe = findVMRecipe c listRecipes n recipe)
   \<and> snd (snd (findVMRecipe c listRecipes n recipe)) \<le> Suc n"
proof (intro conjI allI impI)
  fix d assume "vmRecipies c recipe = Some d"
  then show "findVMRecipe c listRecipes n recipe = (Inr d, c, n)"
    by (simp add: findVMRecipe_def)
next
  assume "vmRecipies c recipe = None"
  then show "case refreshVMRecipeCache c listRecipes n of
           (Some err, c1, n1) \<Rightarrow> findVMRecipe c listRecipes n recipe = (Inl err, c1, Suc n)
         | (None, c1, n1) \<Rightarrow>
             findVMRecipe c listRecipes n recipe =
               (case vmRecipies c1 recipe of
                  Some d \<Rightarrow> Inr d
                | None \<Rightarrow> Inl (ErrorNew (''recipe '' @ recipe @ '' not found'')),
                c1, Suc n)"
    by (simp add: findVMRecipe_def refreshVMRecipeCache_def split: sum.splits option.splits)
next
  fix other assume "other n = listRecipes n"
  then have "refreshVMRecipeCache c other n = refreshVMRecipeCache c listRecipes n"
    by (simp add: refreshVMRecipeCache_def)
  then show "findVMRecipe c other n recipe = findVMRecipe c listRecipes n recipe"
    by (simp only: findVMRecipe_def)
next
  show "snd (snd (findVMRecipe c listRecipes n recipe)) \<le> Suc n"
    by (simp add: findVMRecipe_def refreshVMRecipeCache_def split: sum.splits option.splits)
qed

theorem findVMRecipe_refreshes_once_witness:
  "fst (findVMRecipe example_client (\<lambda>i. Inr (Some example_recipes)) 0 ''ubuntu'')
     = Inr example_details
   \<and> snd (snd (findVMRecipe example_client (\<lambda>i. Inr (Some example_recipes)) 0 ''ubuntu'')) = 1
   \<and> fst (findVMRecipe example_client (\<lambda>i. Inr (Some example_recipes)) 0 ''debian'')
     = Inl (ErrorNew ''recipe debian not found'')
   \<and> snd (snd (findVMRecipe example_client (\<lambda>i. Inr (Some example_recipes)) 0 ''debian'')) = 1
   \<and> snd (snd (findVMRecipe (example_client\<lparr>vmRecipies := [''ubuntu'' \<mapsto> example_details]\<rparr>)
                  (\<lambda>i. Inr (Some example_recipes)) 0 ''ubuntu'')) = 0"
  using findVMRecipe_refreshes_once
          [of example_client "''ubuntu''" "\<lambda>i. Inr (Some example_recipes)" 0]
        findVMRecipe_refreshes_once
          [of example_client "''debian''" "\<lambda>i. Inr (Some example_recipes)" 0]
        findVMRecipe_refreshes_once
          [of "example_client\<lparr>vmRecipies := [''ubuntu'' \<mapsto> example_details]\<rparr>" "''ubuntu''"
              "\<lambda>i. Inr (Some example_recipes)" 0]
  by (simp add: example_client_def example_recipes_def example_details_def
        refreshVMRecipeCache_def cache_recipe_def empty_RecipeDetails1_def ToLower_examples)






section \<open>Properties of the provider\<close>

text \<open>The definitions that a run at concrete values unfolds.\<close>

lemmas example_defs =
  example_create_client_def example_plan_def example_keys_def example_tick_def example_vm_def
  example_instance_def Active_def Inactive_def Initializing_def

lemmas run_defs =
  virtualMachineResource_Create_def GetInstance_def populateModelFromInstanceResponse_def
  vm_info_model_def merge_last_def Append_def AddError_def HasError_def tick_event_def
  snapshot_def waits_def Let_def

subsection \<open>Diagnostics\<close>

lemma set_Append: "set (Append ds new) = set ds \<union> set new"
  unfolding Append_def by (induction new arbitrary: ds) auto

lemma Append_Nil: "Append ds [] = ds"
  by (simp add: Append_def)

lemma HasError_Append: "HasError (Append ds new) \<longleftrightarrow> HasError ds \<or> HasError new"
  by (auto simp add: HasError_def set_Append)

lemma AddError_mem: "ErrorDiagnostic summary detail \<in> set (AddError ds summary detail)"
  by (simp add: AddError_def set_Append)

lemma HasError_AddError: "HasError (AddError ds summary detail)"
proof -
  have "is_error (ErrorDiagnostic summary detail)" by simp
  with AddError_mem [of summary detail ds] show ?thesis
    unfolding HasError_def by blast
qed

lemma HasError_Nil: "\<not> HasError []"
  by (simp add: HasError_def)

subsection \<open>The merge of a snapshot into the model\<close>

text \<open>
  \<open>populateModelFromInstanceResponse\<close> leaves the write-only attributes alone, takes the id from
  the snapshot and returns no diagnostics.
\<close>

lemma populate_keeps:
  "Recipe (fst (populateModelFromInstanceResponse m data)) = Recipe m"
  "Datacenter (fst (populateModelFromInstanceResponse m data)) = Datacenter m"
  "SSHKeyID (fst (populateModelFromInstanceResponse m data)) = SSHKeyID m"
  "Metadata (fst (populateModelFromInstanceResponse m data)) = Metadata m"
  by (simp_all add: populateModelFromInstanceResponse_def Let_def split: option.splits)

lemma populate_ID:
  "ID (fst (populateModelFromInstanceResponse m data)) = StringValue (inst_Id data)"
  by (simp add: populateModelFromInstanceResponse_def Let_def split: option.splits)

lemma populate_diags: "snd (populateModelFromInstanceResponse m data) = []"
  by (simp add: populateModelFromInstanceResponse_def Let_def)

subsection \<open>Read\<close>

text \<open>
  Claim C9.  Whenever \<open>Read\<close> leaves a state in its response, the attributes \<open>recipe\<close>,
  \<open>datacenter\<close>, \<open>ssh_key_id\<close> and \<open>metadata\<close> of that state are those of the prior state.  In
  particular a successful \<open>Read\<close> (the prior state decodes and \<open>GetInstance\<close> returns an
  instance) stores the prior state merged with that instance, which differs from the prior
  state in server-owned attributes only.
\<close>

theorem Read_keeps_write_only_fields:
  "(\<forall>s. State (virtualMachineResource_Read selector instances (diags, state)) = Some s
       \<longrightarrow> Recipe s = Recipe state \<and> Datacenter s = Datacenter state
           \<and> SSHKeyID s = SSHKeyID state \<and> Metadata s = Metadata state)
   \<and> (\<forall>vm. \<not> HasError diags \<and> GetInstance selector instances (ValueString (ID state)) = Inr vm
       \<longrightarrow> virtualMachineResource_Read selector instances (diags, state)
             = \<lparr>Diagnostics = Append [] diags,
                State = Some (fst (populateModelFromInstanceResponse state vm))\<rparr>)"
proof (intro conjI allI impI)
  fix s
  assume a: "State (virtualMachineResource_Read selector instances (diags, state)) = Some s"
  have "s = state \<or> (\<exists>vm. s = fst (populateModelFromInstanceResponse state vm))"
    using a
    by (auto simp add: virtualMachineResource_Read_def Let_def
          split: if_splits sum.splits prod.splits)
       (metis fst_conv)
  then show "Recipe s = Recipe state" "Datacenter s = Datacenter state"
      "SSHKeyID s = SSHKeyID state" "Metadata s = Metadata state"
    by (auto simp add: populate_keeps)
next
  fix vm
  assume "\<not> HasError diags \<and> GetInstance selector instances (ValueString (ID state)) = Inr vm"
  then show "virtualMachineResource_Read selector instances (diags, state)
             = \<lparr>Diagnostics = Append [] diags,
                State = Some (fst (populateModelFromInstanceResponse state vm))\<rparr>"
    using populate_diags [of state vm]
    by (cases "populateModelFromInstanceResponse state vm")
       (simp add: virtualMachineResource_Read_def Let_def HasError_Append HasError_Nil Append_Nil)
qed

theorem Read_keeps_write_only_fields_witness:
  "map_option (\<lambda>s. (Recipe s, Datacenter s, SSHKeyID s, Metadata s))
     (State (virtualMachineResource_Read None (snd (example_tick ''1'' Active [example_vm True]))
               ([], example_state)))
     = Some (StringValue ''ubuntu'', StringValue ''us-east-nc-nr-1'', StringValue ''11111'',
             Some \<lparr>StartupCommands = StringValue ''IyEvYmluL2Jhc2g=''\<rparr>)
   \<and> map_option Status
     (State (virtualMachineResource_Read None (snd (example_tick ''1'' Active [example_vm True]))
               ([], example_state)))
     = Some (StringValue ''Active'')"
proof -
  have h: "\<not> HasError [] \<and>
      GetInstance None (snd (example_tick ''1'' Active [example_vm True]))
        (ValueString (ID example_state))
      = Inr ((example_instance ''1'' Active)\<lparr>inst_VirtualMachines := [example_vm True]\<rparr>)"
    by (simp add: HasError_def GetInstance_def example_defs example_state_def)
  note t = Read_keeps_write_only_fields
             [of None "snd (example_tick ''1'' Active [example_vm True])" "[]" example_state]
  from t [THEN conjunct2, rule_format, OF h]
  have r: "virtualMachineResource_Read None (snd (example_tick ''1'' Active [example_vm True]))
             ([], example_state)
           = \<lparr>Diagnostics = Append [] [],
              State = Some (fst (populateModelFromInstanceResponse example_state
                 ((example_instance ''1'' Active)\<lparr>inst_VirtualMachines := [example_vm True]\<rparr>)))\<rparr>" .
  from t [THEN conjunct1, rule_format, of
            "fst (populateModelFromInstanceResponse example_state
                 ((example_instance ''1'' Active)\<lparr>inst_VirtualMachines := [example_vm True]\<rparr>))"] r
  have k: "Recipe (fst (populateModelFromInstanceResponse example_state
                 ((example_instance ''1'' Active)\<lparr>inst_VirtualMachines := [example_vm True]\<rparr>)))
             = Recipe example_state
           \<and> Datacenter (fst (populateModelFromInstanceResponse example_state
                 ((example_instance ''1'' Active)\<lparr>inst_VirtualMachines := [example_vm True]\<rparr>)))
             = Datacenter example_state
           \<and> SSHKeyID (fst (populateModelFromInstanceResponse example_state
                 ((example_instance ''1'' Active)\<lparr>inst_VirtualMachines := [example_vm True]\<rparr>)))
             = SSHKeyID example_state
           \<and> Metadata (fst (populateModelFromInstanceResponse example_state
                 ((example_instance ''1'' Active)\<lparr>inst_VirtualMachines := [example_vm True]\<rparr>)))
             = Metadata example_state"
    by simp
  have st: "Status (fst (populateModelFromInstanceResponse example_state
                 ((example_instance ''1'' Active)\<lparr>inst_VirtualMachines := [example_vm True]\<rparr>)))
             = StringValue ''Active''"
    by (simp add: populateModelFromInstanceResponse_def Let_def example_instance_def Active_def)
  from r k st show ?thesis
    by (simp add: example_state_def example_plan_def)
qed

subsection \<open>The poll loop of Create\<close>

lemma snapshot_GetInstance:
  "snapshot iid t = Some current \<longleftrightarrow> GetInstance (fst t) (snd t) iid = Inr current"
  by (simp add: snapshot_def split: sum.splits)

lemma GetInstance_Id: "GetInstance selector instances iid = Inr current \<Longrightarrow> inst_Id current = iid"
  by (auto simp add: GetInstance_def split: option.splits sum.splits dest: GetInstance_loop_Inr)

lemma snapshot_Id: "snapshot iid t = Some current \<Longrightarrow> inst_Id current = iid"
  by (simp add: snapshot_GetInstance GetInstance_Id)

lemma waits_snapshot:
  "waits iid t \<Longrightarrow>
   \<exists>current. snapshot iid t = Some current
     \<and> \<not> (inst_Status current = Active \<and> length (inst_VirtualMachines current) > 0
          \<and> vm_Ready (inst_VirtualMachines current ! 0))"
  by (cases "snapshot iid t") (simp_all add: waits_def)

text \<open>A tick at which the loop waits only replaces the last snapshot.\<close>

lemma Create_poll_wait_step:
  assumes "waits iid t"
  shows "Create_poll iid (tick_event t # events) plan lastp resp
           = Create_poll iid events plan (snapshot iid t) resp"
proof -
  from assms obtain current where c: "snapshot iid t = Some current"
    and n: "\<not> (inst_Status current = Active \<and> length (inst_VirtualMachines current) > 0
          \<and> vm_Ready (inst_VirtualMachines current ! 0))"
    using waits_snapshot by blast
  from c have g: "GetInstance (fst t) (snd t) iid = Inr current"
    by (simp add: snapshot_GetInstance)
  show ?thesis
    using g n c by (auto simp add: tick_event_def Let_def)
qed

lemma Create_poll_waits:
  "\<forall>t \<in> set ticks. waits iid t \<Longrightarrow>
   Create_poll iid (map tick_event ticks @ events) plan lastp resp
     = Create_poll iid events plan (if ticks = [] then lastp else snapshot iid (last ticks)) resp"
proof (induction ticks arbitrary: lastp)
  case Nil
  then show ?case by simp
next
  case (Cons t ts)
  then have w: "waits iid t" and ws: "\<forall>t \<in> set ts. waits iid t" by simp_all
  have "Create_poll iid (map tick_event (t # ts) @ events) plan lastp resp
          = Create_poll iid (map tick_event ts @ events) plan (snapshot iid t) resp"
    using Create_poll_wait_step [OF w] by simp
  also have "\<dots> = Create_poll iid events plan
                     (if ts = [] then snapshot iid t else snapshot iid (last ts)) resp"
    using Cons.IH [OF ws] .
  finally show ?case by simp
qed

text \<open>The exits of the loop, one event each.\<close>

lemma merge_last_eq:
  "merge_last resp plan lastp =
     (resp, case lastp of None \<Rightarrow> plan | Some l \<Rightarrow> fst (populateModelFromInstanceResponse plan l))"
proof (cases lastp)
  case None
  then show ?thesis by (simp add: merge_last_def)
next
  case (Some l)
  then show ?thesis
    using populate_diags [of plan l]
    by (cases "populateModelFromInstanceResponse plan l") (simp add: merge_last_def Append_Nil)
qed

lemma Create_poll_timeout:
  "Create_poll iid (ProvisioningTimeout # events) plan lastp resp =
     Some \<lparr>Diagnostics = AddError (Diagnostics resp) ''Provisioning timeout reached''
              ''Provisioning timeout reached before finished waiting on instance creation'',
           State = Some (case lastp of None \<Rightarrow> plan
                         | Some l \<Rightarrow> fst (populateModelFromInstanceResponse plan l))\<rparr>"
  by (simp add: merge_last_eq Let_def)

lemma Create_poll_canceled:
  "Create_poll iid (CtxDone ctxErr # events) plan lastp resp =
     Some \<lparr>Diagnostics =
             (case ctxErr of
                None \<Rightarrow> Diagnostics resp
              | Some err \<Rightarrow>
                  AddError (Diagnostics resp) ''Polling Interval Canceled''
                    (''Polling interval canceled before finished waiting on instance creation: ''
                     @ Error err)),
           State = Some (case lastp of None \<Rightarrow> plan
                         | Some l \<Rightarrow> fst (populateModelFromInstanceResponse plan l))\<rparr>"
  by (cases ctxErr) (simp_all add: merge_last_eq Let_def)

lemma Create_poll_fetch_error:
  assumes "GetInstance selector instances iid = Inl err"
  shows "Create_poll iid (PollTick selector instances # events) plan lastp resp =
     Some \<lparr>Diagnostics = AddError (Diagnostics resp) ''Error creating Virtual Machine''
              (''Could not create Virtual Machine, failed to poll status of the rented Virtual Machine ID: ''
               @ iid @ '' : '' @ Error err),
           State = (if errors_Is_ErrNotFound err then State resp
                    else Some (case lastp of None \<Rightarrow> plan
                               | Some l \<Rightarrow> fst (populateModelFromInstanceResponse plan l)))\<rparr>"
  using assms by (simp add: merge_last_eq Let_def)

lemma Create_poll_ready:
  assumes "GetInstance selector instances iid = Inr current"
    and "inst_Status current = Active" and "length (inst_VirtualMachines current) > 0"
    and "vm_Ready (inst_VirtualMachines current ! 0)"
  shows "Create_poll iid (PollTick selector instances # events) plan lastp resp =
     Some (resp\<lparr>State := Some (fst (populateModelFromInstanceResponse plan current))\<rparr>)"
  using assms populate_diags [of plan current]
  by (cases "populateModelFromInstanceResponse plan current") (simp add: Let_def Append_Nil)

lemma Create_poll_waiting: "\<forall>t \<in> set ticks. waits iid t \<Longrightarrow>
   Create_poll iid (map tick_event ticks) plan lastp resp = None"
  using Create_poll_waits [of ticks iid "[]" plan lastp resp] by simp

text \<open>\<open>Create\<close> up to the poll loop, when the plan decodes, the key is listed and the rent call succeeds.\<close>

lemma Create_rented:
  assumes "\<not> HasError diags"
    and "client_ListSSHKeys client = Inr keys"
    and "find (\<lambda>k. key_Id k = ValueString (SSHKeyID plan)) keys = Some matched"
    and "client_RentPublicInstanceVM client (ValueString (Recipe plan))
           (ValueString (Datacenter plan)) (ValueString (InstanceType plan))
           (case Metadata plan of Some md \<Rightarrow> ValueString (StartupCommands md) | None \<Rightarrow> [])
           [key_PublicKey matched] = Inr ids"
  shows "virtualMachineResource_Create client events (diags, plan) =
           (case InstanceIds ids of
              [] \<Rightarrow>
                Some \<lparr>Diagnostics = AddError (Append [] diags) ''Error creating Virtual Machine''
                        ''Could not create Virtual Machine, no valid IDs were returned from the CloudRift server'',
                      State = None\<rparr>
            | iid # others \<Rightarrow>
                Create_poll iid events (plan\<lparr>ID := StringValue iid\<rparr>) None
                  \<lparr>Diagnostics = Append [] diags, State = None\<rparr>)"
  using assms
  by (simp add: virtualMachineResource_Create_def Let_def HasError_Append HasError_Nil
        split: list.splits)

text \<open>
  Claim C1, as amended.  When the rent call returns no instance id, \<open>Create\<close> fails with an error
  diagnostic, stores no state and never polls: the result is the same whatever events are
  still to come, and is there with no event at all.  When it returns one id or more,
  \<open>Create\<close> writes the first id into the plan and enters the poll loop with it; further ids
  are ignored.
\<close>

theorem Create_requires_an_instance_id:
  assumes "\<not> HasError diags"
    and "client_ListSSHKeys client = Inr keys"
    and "find (\<lambda>k. key_Id k = ValueString (SSHKeyID plan)) keys = Some matched"
    and "client_RentPublicInstanceVM client (ValueString (Recipe plan))
           (ValueString (Datacenter plan)) (ValueString (InstanceType plan))
           (case Metadata plan of Some md \<Rightarrow> ValueString (StartupCommands md) | None \<Rightarrow> [])
           [key_PublicKey matched] = Inr ids"
  shows "(InstanceIds ids = [] \<longrightarrow>
            (\<exists>r. virtualMachineResource_Create client events (diags, plan) = Some r
               \<and> HasError (Diagnostics r) \<and> State r = None
               \<and> virtualMachineResource_Create client [] (diags, plan) = Some r))
         \<and> (\<forall>iid others. InstanceIds ids = iid # others \<longrightarrow>
               virtualMachineResource_Create client events (diags, plan) =
                 Create_poll iid events (plan\<lparr>ID := StringValue iid\<rparr>) None
                   \<lparr>Diagnostics = Append [] diags, State = None\<rparr>)"
  using Create_rented [OF assms, of events] Create_rented [OF assms, of "[]"]
  by (auto simp add: HasError_AddError)

theorem Create_requires_an_instance_id_witness:
  "map_option (\<lambda>r. (HasError (Diagnostics r), State r))
     (virtualMachineResource_Create (example_create_client []) [ProvisioningTimeout]
        ([], example_plan)) = Some (True, None)
   \<and> virtualMachineResource_Create (example_create_client [''7'']) [ProvisioningTimeout]
        ([], example_plan)
     = Create_poll ''7'' [ProvisioningTimeout] (example_plan\<lparr>ID := StringValue ''7''\<rparr>) None
         \<lparr>Diagnostics = [], State = None\<rparr>"
proof -
  have h: "\<not> HasError []" by (simp add: HasError_def)
  have m: "find (\<lambda>k. key_Id k = ValueString (SSHKeyID example_plan)) example_keys
             = Some \<lparr>key_Id = ''11111'', key_Name = ''anotheruser-key'',
                     key_PublicKey = ''ssh-rsa AAAA anotheruser''\<rparr>"
    by (simp add: example_defs)
  have k: "\<And>ids. client_ListSSHKeys (example_create_client ids) = Inr example_keys"
    by (simp add: example_create_client_def)
  have r: "\<And>ids a b c d e. client_RentPublicInstanceVM (example_create_client ids) a b c d e
             = Inr \<lparr>InstanceIds = ids\<rparr>"
    by (simp add: example_create_client_def)
  from Create_requires_an_instance_id [OF h k m r, of "[]" "[ProvisioningTimeout]"]
  have a: "map_option (\<lambda>r. (HasError (Diagnostics r), State r))
     (virtualMachineResource_Create (example_create_client []) [ProvisioningTimeout]
        ([], example_plan)) = Some (True, None)"
    by auto
  from Create_requires_an_instance_id [OF h k m r, of "[''7'']" "[ProvisioningTimeout]"]
  have b: "virtualMachineResource_Create (example_create_client [''7'']) [ProvisioningTimeout]
        ([], example_plan)
     = Create_poll ''7'' [ProvisioningTimeout] (example_plan\<lparr>ID := StringValue ''7''\<rparr>) None
         \<lparr>Diagnostics = [], State = None\<rparr>"
    by (simp add: Append_def)
  from a b show ?thesis by simp
qed

text \<open>
  The claim C1 as stated fails for two ids: the rent call returns \<open>1\<close> and \<open>2\<close>, the first
  poll finds instance \<open>1\<close> active with a ready virtual machine, and \<open>Create\<close> succeeds with no
  diagnostic and a state for instance \<open>1\<close>.
\<close>

theorem Create_two_ids_counterexample:
  "map_option Diagnostics
     (virtualMachineResource_Create (example_create_client [''1'', ''2''])
        [tick_event (example_tick ''1'' Active [example_vm True])] ([], example_plan)) = Some []
   \<and> map_option (map_option ID \<circ> State)
     (virtualMachineResource_Create (example_create_client [''1'', ''2''])
        [tick_event (example_tick ''1'' Active [example_vm True])] ([], example_plan))
     = Some (Some (StringValue ''1''))"
  by (simp add: example_defs run_defs)

text \<open>
  Claim C2, as amended.  The loop waits at every tick whose poll returns an instance that is
  not \<open>Active\<close>, or has no virtual machine, or whose first virtual machine is not ready: after
  such ticks alone it has not returned.  It returns at the first tick whose poll returns an
  \<open>Active\<close> instance whose first virtual machine is ready, with no diagnostic added and with
  the plan merged with that instance as the state.
\<close>

theorem Create_poll_succeeds_at_first_ready_tick:
  assumes "\<forall>t \<in> set ticks. waits iid t"
    and "snapshot iid t = Some current"
    and "inst_Status current = Active"
    and "length (inst_VirtualMachines current) > 0"
    and "vm_Ready (inst_VirtualMachines current ! 0)"
  shows "Create_poll iid (map tick_event ticks @ tick_event t # events) plan lastp resp
           = Some (resp\<lparr>State := Some (fst (populateModelFromInstanceResponse plan current))\<rparr>)
         \<and> Create_poll iid (map tick_event ticks) plan lastp resp = None"
proof -
  from assms(2) have g: "GetInstance (fst t) (snd t) iid = Inr current"
    by (simp add: snapshot_GetInstance)
  have "Create_poll iid (map tick_event ticks @ tick_event t # events) plan lastp resp
          = Create_poll iid (tick_event t # events) plan
              (if ticks = [] then lastp else snapshot iid (last ticks)) resp"
    using assms(1) by (rule Create_poll_waits)
  also have "\<dots> = Some (resp\<lparr>State := Some (fst (populateModelFromInstanceResponse plan current))\<rparr>)"
    unfolding tick_event_def using g assms(3-5) by (rule Create_poll_ready)
  finally show ?thesis
    using Create_poll_waiting [OF assms(1)] by simp
qed

theorem Create_poll_succeeds_at_first_ready_tick_witness:
  "Create_poll ''1''
     (map tick_event [example_tick ''1'' Initializing [], example_tick ''1'' Active [example_vm False]]
      @ tick_event (example_tick ''1'' Active [example_vm True]) # [ProvisioningTimeout])
     example_plan None \<lparr>Diagnostics = [], State = None\<rparr>
   = Some \<lparr>Diagnostics = [],
           State = Some (fst (populateModelFromInstanceResponse example_plan
                     ((example_instance ''1'' Active)\<lparr>inst_VirtualMachines := [example_vm True]\<rparr>)))\<rparr>
   \<and> Create_poll ''1''
     (map tick_event [example_tick ''1'' Initializing [], example_tick ''1'' Active [example_vm False]])
     example_plan None \<lparr>Diagnostics = [], State = None\<rparr> = None"
proof -
  have w: "\<forall>t \<in> set [example_tick ''1'' Initializing [], example_tick ''1'' Active [example_vm False]].
             waits ''1'' t"
    by (simp add: example_defs run_defs)
  have s: "snapshot ''1'' (example_tick ''1'' Active [example_vm True])
             = Some ((example_instance ''1'' Active)\<lparr>inst_VirtualMachines := [example_vm True]\<rparr>)"
    by (simp add: example_defs run_defs)
  have a: "inst_Status ((example_instance ''1'' Active)\<lparr>inst_VirtualMachines := [example_vm True]\<rparr>)
             = Active"
    by (simp add: example_instance_def)
  have l: "length (inst_VirtualMachines
             ((example_instance ''1'' Active)\<lparr>inst_VirtualMachines := [example_vm True]\<rparr>)) > 0"
    by simp
  have v: "vm_Ready (inst_VirtualMachines
             ((example_instance ''1'' Active)\<lparr>inst_VirtualMachines := [example_vm True]\<rparr>) ! 0)"
    by (simp add: example_vm_def)
  from Create_poll_succeeds_at_first_ready_tick [OF w s a l v,
         of "[ProvisioningTimeout]" example_plan None "\<lparr>Diagnostics = [], State = None\<rparr>"]
  show ?thesis by simp
qed

text \<open>
  The claim C2 as stated fails when a virtual machine other than the first is the ready one:
  the instance is \<open>Active\<close> and its second virtual machine is ready, yet the loop does not
  return at that tick, and a deadline that follows fails the creation.
\<close>

theorem Create_poll_second_vm_ready_counterexample:
  "snapshot ''1'' (example_tick ''1'' Active [example_vm False, example_vm True])
     = Some ((example_instance ''1'' Active)
               \<lparr>inst_VirtualMachines := [example_vm False, example_vm True]\<rparr>)
   \<and> inst_Status (example_instance ''1'' Active) = Active
   \<and> vm_Ready (example_vm True)
   \<and> Create_poll ''1'' [tick_event (example_tick ''1'' Active [example_vm False, example_vm True])]
        example_plan None \<lparr>Diagnostics = [], State = None\<rparr> = None
   \<and> map_option Diagnostics
        (Create_poll ''1''
           [tick_event (example_tick ''1'' Active [example_vm False, example_vm True]),
            ProvisioningTimeout]
           example_plan None \<lparr>Diagnostics = [], State = None\<rparr>)
      = Some [ErrorDiagnostic ''Provisioning timeout reached''
                ''Provisioning timeout reached before finished waiting on instance creation'']"
  by (simp add: example_defs run_defs)

text \<open>
  Claim C3, as amended.  After one or more ticks at which the loop waited, let \<open>current\<close> be the
  instance seen at the last of them.  When the loop then ends at the deadline, at a
  cancellation or at a poll that fails with an error other than \<open>ErrNotFound\<close>, the state it
  stores is the plan merged with \<open>current\<close>, and an error is reported (at a cancellation, when
  \<open>ctx.Err()\<close> is set).  When the poll fails with \<open>ErrNotFound\<close> the error is reported and the
  state is left as it was: nothing is stored.
\<close>

theorem Create_poll_failure_keeps_last_snapshot:
  assumes "\<forall>t \<in> set ticks. waits iid t"
    and "ticks \<noteq> []"
    and "snapshot iid (last ticks) = Some current"
  shows "(\<exists>r. Create_poll iid (map tick_event ticks @ ProvisioningTimeout # events) plan lastp resp
                = Some r
              \<and> State r = Some (fst (populateModelFromInstanceResponse plan current))
              \<and> HasError (Diagnostics r))
         \<and> (\<forall>ctxErr. \<exists>r.
               Create_poll iid (map tick_event ticks @ CtxDone ctxErr # events) plan lastp resp
                 = Some r
               \<and> State r = Some (fst (populateModelFromInstanceResponse plan current))
               \<and> (ctxErr \<noteq> None \<longrightarrow> HasError (Diagnostics r)))
         \<and> (\<forall>selector instances err.
               GetInstance selector instances iid = Inl err \<longrightarrow>
               (\<exists>r. Create_poll iid (map tick_event ticks @ PollTick selector instances # events)
                       plan lastp resp = Some r
                  \<and> State r = (if errors_Is_ErrNotFound err then State resp
                               else Some (fst (populateModelFromInstanceResponse plan current)))
                  \<and> HasError (Diagnostics r)))"
proof -
  have skip: "\<And>evs. Create_poll iid (map tick_event ticks @ evs) plan lastp resp
                = Create_poll iid evs plan (Some current) resp"
    using Create_poll_waits [OF assms(1)] assms(2,3) by simp
  show ?thesis
  proof (intro conjI allI impI)
    show "\<exists>r. Create_poll iid (map tick_event ticks @ ProvisioningTimeout # events) plan lastp resp
                = Some r
              \<and> State r = Some (fst (populateModelFromInstanceResponse plan current))
              \<and> HasError (Diagnostics r)"
      by (simp add: skip Create_poll_timeout HasError_AddError del: Create_poll.simps)
  next
    fix ctxErr
    show "\<exists>r. Create_poll iid (map tick_event ticks @ CtxDone ctxErr # events) plan lastp resp
                 = Some r
               \<and> State r = Some (fst (populateModelFromInstanceResponse plan current))
               \<and> (ctxErr \<noteq> None \<longrightarrow> HasError (Diagnostics r))"
      by (cases ctxErr)
         (simp_all add: skip Create_poll_canceled HasError_AddError del: Create_poll.simps)
  next
    fix selector instances err
    assume "GetInstance selector instances iid = Inl err"
    then show "\<exists>r. Create_poll iid (map tick_event ticks @ PollTick selector instances # events)
                       plan lastp resp = Some r
                  \<and> State r = (if errors_Is_ErrNotFound err then State resp
                               else Some (fst (populateModelFromInstanceResponse plan current)))
                  \<and> HasError (Diagnostics r)"
      by (simp add: skip Create_poll_fetch_error HasError_AddError del: Create_poll.simps)
  qed
qed

theorem Create_poll_failure_keeps_last_snapshot_witness:
  "map_option State
     (Create_poll ''1'' (map tick_event [example_tick ''1'' Initializing []] @ [ProvisioningTimeout])
        example_plan None \<lparr>Diagnostics = [], State = None\<rparr>)
     = Some (Some (fst (populateModelFromInstanceResponse example_plan
                          (example_instance ''1'' Initializing))))
   \<and> map_option State
     (Create_poll ''1''
        (map tick_event [example_tick ''1'' Initializing []]
         @ [CtxDone (Some (ErrorNew ''context canceled''))])
        example_plan None \<lparr>Diagnostics = [], State = None\<rparr>)
     = Some (Some (fst (populateModelFromInstanceResponse example_plan
                          (example_instance ''1'' Initializing))))
   \<and> map_option State
     (Create_poll ''1''
        (map tick_event [example_tick ''1'' Initializing []]
         @ [PollTick None (Inl (ErrorNew ''request failed''))])
        example_plan None \<lparr>Diagnostics = [], State = None\<rparr>)
     = Some (Some (fst (populateModelFromInstanceResponse example_plan
                          (example_instance ''1'' Initializing))))"
proof -
  have w: "\<forall>t \<in> set [example_tick ''1'' Initializing []]. waits ''1'' t"
    by (simp add: example_defs run_defs)
  have n: "[example_tick ''1'' Initializing []] \<noteq> []" by simp
  have s: "snapshot ''1'' (last [example_tick ''1'' Initializing []])
             = Some (example_instance ''1'' Initializing)"
    by (simp add: example_defs run_defs)
  have g: "GetInstance None (Inl (ErrorNew ''request failed'')) ''1'' = Inl (ErrorNew ''request failed'')"
    by (simp add: GetInstance_def)
  note t = Create_poll_failure_keeps_last_snapshot [OF w n s, of "[]" example_plan None
             "\<lparr>Diagnostics = [], State = None\<rparr>"]
  from t have a: "map_option State
     (Create_poll ''1'' (map tick_event [example_tick ''1'' Initializing []] @ [ProvisioningTimeout])
        example_plan None \<lparr>Diagnostics = [], State = None\<rparr>)
     = Some (Some (fst (populateModelFromInstanceResponse example_plan
                          (example_instance ''1'' Initializing))))"
    by auto
  from t have "\<exists>r. Create_poll ''1''
        (map tick_event [example_tick ''1'' Initializing []]
         @ [CtxDone (Some (ErrorNew ''context canceled''))])
        example_plan None \<lparr>Diagnostics = [], State = None\<rparr> = Some r
      \<and> State r = Some (fst (populateModelFromInstanceResponse example_plan
                          (example_instance ''1'' Initializing)))"
    by blast
  then have b: "map_option State
     (Create_poll ''1''
        (map tick_event [example_tick ''1'' Initializing []]
         @ [CtxDone (Some (ErrorNew ''context canceled''))])
        example_plan None \<lparr>Diagnostics = [], State = None\<rparr>)
     = Some (Some (fst (populateModelFromInstanceResponse example_plan
                          (example_instance ''1'' Initializing))))"
    by auto
  from t g have "\<exists>r. Create_poll ''1''
        (map tick_event [example_tick ''1'' Initializing []]
         @ [PollTick None (Inl (ErrorNew ''request failed''))])
        example_plan None \<lparr>Diagnostics = [], State = None\<rparr> = Some r
      \<and> State r = (if errors_Is_ErrNotFound (ErrorNew ''request failed'') then None
                   else Some (fst (populateModelFromInstanceResponse example_plan
                          (example_instance ''1'' Initializing))))"
    by (metis (no_types, lifting) resource_response.select_convs(2))
  then have c: "map_option State
     (Create_poll ''1''
        (map tick_event [example_tick ''1'' Initializing []]
         @ [PollTick None (Inl (ErrorNew ''request failed''))])
        example_plan None \<lparr>Diagnostics = [], State = None\<rparr>)
     = Some (Some (fst (populateModelFromInstanceResponse example_plan
                          (example_instance ''1'' Initializing))))"
    by auto
  from a b c show ?thesis by simp
qed

text \<open>
  The claim C3 as stated fails in the \<open>ErrNotFound\<close> case: the first poll sees the instance
  initializing, the second finds it \<open>Inactive\<close>, which \<open>GetInstance\<close> reports as \<open>ErrNotFound\<close>, and
  \<open>Create\<close> returns without any state.
\<close>

theorem Create_poll_not_found_counterexample:
  "snapshot ''1'' (example_tick ''1'' Initializing []) = Some (example_instance ''1'' Initializing)
   \<and> GetInstance None (snd (example_tick ''1'' Inactive [])) ''1'' = Inl ErrNotFound
   \<and> map_option State
        (Create_poll ''1''
           [tick_event (example_tick ''1'' Initializing []),
            tick_event (example_tick ''1'' Inactive [])]
           example_plan None \<lparr>Diagnostics = [], State = None\<rparr>)
      = Some None"
  by (simp add: example_defs run_defs)

text \<open>
  Claim C10.  When the plan decodes, the key is listed and the rent call returns at least one
  id, the state that \<open>Create\<close> stores when the deadline expires or the context is cancelled
  has the first returned id as its \<open>ID\<close>, after any number of ticks at which the loop waited,
  none included: the id is in the plan before the loop starts, and an instance that a poll
  returns has that id.
\<close>

theorem Create_persists_rented_id:
  assumes "\<not> HasError diags"
    and "client_ListSSHKeys client = Inr keys"
    and "find (\<lambda>k. key_Id k = ValueString (SSHKeyID plan)) keys = Some matched"
    and "client_RentPublicInstanceVM client (ValueString (Recipe plan))
           (ValueString (Datacenter plan)) (ValueString (InstanceType plan))
           (case Metadata plan of Some md \<Rightarrow> ValueString (StartupCommands md) | None \<Rightarrow> [])
           [key_PublicKey matched] = Inr ids"
    and "InstanceIds ids = iid # others"
    and "\<forall>t \<in> set ticks. waits iid t"
  shows "(\<exists>r s. virtualMachineResource_Create client
                  (map tick_event ticks @ ProvisioningTimeout # events) (diags, plan) = Some r
              \<and> State r = Some s \<and> ID s = StringValue iid)
         \<and> (\<forall>ctxErr. \<exists>r s.
               virtualMachineResource_Create client
                 (map tick_event ticks @ CtxDone ctxErr # events) (diags, plan) = Some r
               \<and> State r = Some s \<and> ID s = StringValue iid)"
proof -
  let ?plan = "plan\<lparr>ID := StringValue iid\<rparr>"
  let ?resp = "\<lparr>Diagnostics = Append [] diags, State = None\<rparr>"
  let ?last = "if ticks = [] then None else snapshot iid (last ticks)"
  let ?s = "case ?last of None \<Rightarrow> ?plan
            | Some l \<Rightarrow> fst (populateModelFromInstanceResponse ?plan l)"
  have start: "\<And>evs. virtualMachineResource_Create client (map tick_event ticks @ evs) (diags, plan)
                 = Create_poll iid evs ?plan ?last ?resp"
    using Create_rented [OF assms(1-4)] assms(5) Create_poll_waits [OF assms(6)] by simp
  have id: "ID ?s = StringValue iid"
  proof (cases ?last)
    case None
    then show ?thesis by simp
  next
    case (Some l)
    then have "snapshot iid (last ticks) = Some l" by (simp split: if_splits)
    then have "inst_Id l = iid" by (rule snapshot_Id)
    with Some show ?thesis by (simp add: populate_ID)
  qed
  show ?thesis
  proof (intro conjI allI)
    show "\<exists>r s. virtualMachineResource_Create client
                  (map tick_event ticks @ ProvisioningTimeout # events) (diags, plan) = Some r
              \<and> State r = Some s \<and> ID s = StringValue iid"
      using id by (simp add: start Create_poll_timeout del: Create_poll.simps)
  next
    fix ctxErr
    show "\<exists>r s. virtualMachineResource_Create client
                 (map tick_event ticks @ CtxDone ctxErr # events) (diags, plan) = Some r
               \<and> State r = Some s \<and> ID s = StringValue iid"
      using id by (simp add: start Create_poll_canceled del: Create_poll.simps)
  qed
qed

theorem Create_persists_rented_id_witness:
  "map_option (map_option ID \<circ> State)
     (virtualMachineResource_Create (example_create_client [''1''])
        (map tick_event [] @ [ProvisioningTimeout]) ([], example_plan))
     = Some (Some (StringValue ''1''))
   \<and> map_option (map_option ID \<circ> State)
     (virtualMachineResource_Create (example_create_client [''1''])
        (map tick_event [] @ [CtxDone (Some (ErrorNew ''context canceled''))]) ([], example_plan))
     = Some (Some (StringValue ''1''))"
proof -
  have h: "\<not> HasError []" by (simp add: HasError_def)
  have m: "find (\<lambda>k. key_Id k = ValueString (SSHKeyID example_plan)) example_keys
             = Some \<lparr>key_Id = ''11111'', key_Name = ''anotheruser-key'',
                     key_PublicKey = ''ssh-rsa AAAA anotheruser''\<rparr>"
    by (simp add: example_defs)
  have k: "client_ListSSHKeys (example_create_client [''1'']) = Inr example_keys"
    by (simp add: example_create_client_def)
  have r: "\<And>a b c d e. client_RentPublicInstanceVM (example_create_client [''1'']) a b c d e
             = Inr \<lparr>InstanceIds = [''1'']\<rparr>"
    by (simp add: example_create_client_def)
  have i: "InstanceIds \<lparr>InstanceIds = [''1'']\<rparr> = ''1'' # []" by simp
  have w: "\<forall>t \<in> set []. waits ''1'' t" by simp
  note t = Create_persists_rented_id [OF h k m r i w, of "[]"]
  from t have a: "map_option (map_option ID \<circ> State)
     (virtualMachineResource_Create (example_create_client [''1''])
        (map tick_event [] @ [ProvisioningTimeout]) ([], example_plan))
     = Some (Some (StringValue ''1''))"
    by auto
  from t have "\<exists>r s. virtualMachineResource_Create (example_create_client [''1''])
        (map tick_event [] @ [CtxDone (Some (ErrorNew ''context canceled''))]) ([], example_plan)
          = Some r \<and> State r = Some s \<and> ID s = StringValue ''1''"
    by blast
  then have b: "map_option (map_option ID \<circ> State)
     (virtualMachineResource_Create (example_create_client [''1''])
        (map tick_event [] @ [CtxDone (Some (ErrorNew ''context canceled''))]) ([], example_plan))
     = Some (Some (StringValue ''1''))"
    by auto
  from a b show ?thesis by simp
qed

subsection \<open>Delete\<close>

text \<open>
  Claim C6.  Let the delete request of \<open>DeleteSSHKey\<close>, or the terminate request of
  \<open>TerminateInstance\<close>, fail with \<open>err\<close>, the prior state having decoded.  When \<open>err\<close> is the
  \<open>ErrNotFound\<close> sentinel, both \<open>Delete\<close> methods return with no diagnostic added and so with no
  error, for any prior state, and the virtual machine's \<open>Delete\<close> does not poll.  Any other
  error is reported in an error diagnostic that carries its text, and \<open>Delete\<close> returns.  In the
  witness the sentinel comes from the transport, for a response with status 404.
\<close>

theorem Delete_tolerates_not_found:
  assumes "doReq req = Inl err" and "\<not> HasError diags"
  shows "(errors_Is_ErrNotFound err \<longrightarrow>
            sshKeyResource_Delete (DeleteSSHKey (Inr req) doReq) (diags, key_state)
              = Append [] diags
            \<and> \<not> HasError (sshKeyResource_Delete (DeleteSSHKey (Inr req) doReq) (diags, key_state))
            \<and> (\<forall>events.
                 virtualMachineResource_Delete (TerminateInstance None (Inr req) doReq) events
                   (diags, vm_state) = Some (Append [] diags)))
         \<and> (\<not> errors_Is_ErrNotFound err \<longrightarrow>
            sshKeyResource_Delete (DeleteSSHKey (Inr req) doReq) (diags, key_state)
              = AddError (Append [] diags) ''Error Delete SSH Key''
                  (''Could not delete SSH Key ID '' @ ValueString (ssh_ID key_state) @ '': ''
                   @ Error err)
            \<and> (\<forall>events.
                 virtualMachineResource_Delete (TerminateInstance None (Inr req) doReq) events
                   (diags, vm_state)
                 = Some (AddError (Append [] diags) ''Error Delete Virtual Machine''
                           (''Could not delete Virtual Machine with ID ''
                            @ ValueString (ID vm_state) @ '': '' @ Error err))))"
proof -
  have d: "DeleteSSHKey (Inr req) doReq = Some err"
    using assms(1) by (simp add: DeleteSSHKey_def)
  have t: "TerminateInstance None (Inr req) doReq = Some err"
    using assms(1) by (simp add: TerminateInstance_def)
  have h: "\<not> HasError (Append [] diags)"
    using assms(2) by (simp add: HasError_Append HasError_Nil)
  show ?thesis
    using h by (simp add: d t sshKeyResource_Delete_def virtualMachineResource_Delete_def Let_def)
qed

theorem Delete_tolerates_not_found_witness:
  "sshKeyResource_Delete
     (DeleteSSHKey (Inr example_request) (example_doReq 404 ''404 Not Found'' []))
     ([], example_key_state) = []
   \<and> virtualMachineResource_Delete
       (TerminateInstance None (Inr example_request) (example_doReq 404 ''404 Not Found'' []))
       [] ([], example_state) = Some []
   \<and> sshKeyResource_Delete
       (DeleteSSHKey (Inr example_request) (example_doReq 500 ''500 Internal Server Error'' ''boom''))
       ([], example_key_state)
     = [ErrorDiagnostic ''Error Delete SSH Key''
          (''Could not delete SSH Key ID 11111: ''
           @ ''request https://api.cloudrift.ai/api/v1/x failed: 500 Internal Server Error: body: boom'')]"
proof -
  have h: "\<not> HasError []" by (simp add: HasError_def)
  have nf: "example_doReq 404 ''404 Not Found'' [] example_request = Inl ErrNotFound"
    by (simp add: example_doReq_def DoRequestWithApiToken_def Let_def)
  have se: "example_doReq 500 ''500 Internal Server Error'' ''boom'' example_request
              = Inl (ErrorNew ''request https://api.cloudrift.ai/api/v1/x failed: 500 Internal Server Error: body: boom'')"
    by (simp add: example_doReq_def DoRequestWithApiToken_def Let_def example_request_def)
  from Delete_tolerates_not_found
         [where doReq = "example_doReq 404 ''404 Not Found'' []" and req = example_request
            and key_state = example_key_state and vm_state = example_state, OF nf h]
       Delete_tolerates_not_found
         [where doReq = "example_doReq 500 ''500 Internal Server Error'' ''boom''"
            and req = example_request
            and key_state = example_key_state and vm_state = example_state, OF se h]
  show ?thesis
    by (simp add: Append_def AddError_def example_key_state_def)
qed

end
